theory Spec2Isabelle
  imports Complex_Main
begin

section \<open>JavaScript strings\<close>

text \<open>
  Strings are lists of 8-bit code units. This is exact for HTTP header values, which
  Node decodes as Latin-1; for other strings the model covers the Latin-1 range.
  A header that the request does not carry, and an environment variable that is not
  set, is \<open>undefined\<close> in the source and \<open>None\<close> here.
\<close>

definition js_whitespace :: "char \<Rightarrow> bool" where
  \<comment> \<open>WhiteSpace and LineTerminator code units below 256: TAB, LF, VT, FF, CR, SP, NBSP\<close>
  "js_whitespace c = (of_char c \<in> {9, 10, 11, 12, 13, 32, 160 :: nat})"

definition js_trim :: "string \<Rightarrow> string" where
  \<comment> \<open>\<open>String.prototype.trim\<close>\<close>
  "js_trim s = rev (dropWhile js_whitespace (rev (dropWhile js_whitespace s)))"

definition starts_with :: "string \<Rightarrow> string \<Rightarrow> bool" where
  \<comment> \<open>\<open>s.startsWith(p)\<close>\<close>
  "starts_with p s = (take (length p) s = p)"

fun js_replace :: "string \<Rightarrow> string \<Rightarrow> string \<Rightarrow> string" where
  \<comment> \<open>\<open>s.replace(pat, rep)\<close> with a string pattern: the first occurrence only\<close>
  "js_replace pat rep [] = (if pat = [] then rep else [])"
| "js_replace pat rep (c # cs) =
     (if starts_with pat (c # cs) then rep @ drop (length pat) (c # cs)
      else c # js_replace pat rep cs)"

definition truthy_str :: "string option \<Rightarrow> bool" where
  \<comment> \<open>a string-or-undefined value used as a condition: \<open>undefined\<close> and \<open>""\<close> are falsy\<close>
  "truthy_str v = (case v of None \<Rightarrow> False | Some s \<Rightarrow> s \<noteq> [])"

section \<open>JavaScript numbers\<close>

text \<open>
  A JavaScript number is an IEEE 754 binary64 value. A finite one is modelled by the
  rational it denotes; the sign of zero, which no handler can observe, is dropped.
  \<open>fl\<close> rounds a rational to the nearest binary64 value, ties to even, as every arithmetic
  operation and every conversion from text does. All the work is done on integers.
\<close>

datatype jsnum = NaN | PosInf | NegInf | Fin rat

function ilen :: "int \<Rightarrow> int \<Rightarrow> int" where
  \<comment> \<open>the number of digits of \<open>n\<close> in base \<open>b\<close>\<close>
  "ilen b n = (if n \<le> 0 \<or> b < 2 then 0 else 1 + ilen b (n div b))"
  by pat_completeness auto
termination
  by (relation "measure (\<lambda>(b, n). nat n)") (auto simp: int_div_less_self)

declare ilen.simps [simp del]

definition ipow :: "int \<Rightarrow> int \<Rightarrow> int" where
  "ipow b e = b ^ nat e"

definition scaled :: "int \<Rightarrow> int \<Rightarrow> int \<Rightarrow> rat" where
  \<comment> \<open>\<open>m * b ^ e\<close> for an exponent of either sign\<close>
  "scaled b m e = (if 0 \<le> e then Fract (m * ipow b e) 1 else Fract m (ipow b (- e)))"

definition ilog_frac :: "int \<Rightarrow> int \<Rightarrow> int \<Rightarrow> int" where
  \<comment> \<open>the \<open>e\<close> with \<open>b ^ e \<le> n / d < b ^ (e + 1)\<close>, for positive \<open>n\<close> and \<open>d\<close>\<close>
  "ilog_frac b n d =
     (let e = ilen b n - ilen b d
      in if (if 0 \<le> e then d * ipow b e \<le> n else d \<le> n * ipow b (- e)) then e else e - 1)"

definition round_half_even :: "int \<Rightarrow> int \<Rightarrow> int" where
  \<comment> \<open>\<open>n / d\<close> rounded to the nearest integer, ties to even, for positive \<open>d\<close>\<close>
  "round_half_even n d =
     (let q = n div d; r = n mod d
      in if 2 * r < d then q else if d < 2 * r then q + 1
         else if even q then q else q + 1)"

definition fl_pos :: "int \<Rightarrow> int \<Rightarrow> (int \<times> int) option" where
  \<comment> \<open>the binary64 value nearest to \<open>n / d > 0\<close> as significand and exponent,
      \<open>None\<close> when it overflows; below \<open>2 ^ - 1022\<close> the exponent stays at \<open>- 1074\<close>\<close>
  "fl_pos n d =
     (let e = max (ilog_frac 2 n d) (- 1022) - 52;
          m = (if 0 \<le> e then round_half_even n (d * ipow 2 e)
               else round_half_even (n * ipow 2 (- e)) d);
          (m, e) = (if m = ipow 2 53 then (ipow 2 52, e + 1) else (m, e))
      in if 971 < e then None else Some (m, e))"

definition fl :: "rat \<Rightarrow> jsnum" where
  "fl x = (let (n, d) = quotient_of x
     in if n = 0 then Fin 0
        else if 0 < n
        then (case fl_pos n d of None \<Rightarrow> PosInf | Some (m, e) \<Rightarrow> Fin (scaled 2 m e))
        else (case fl_pos (- n) d of None \<Rightarrow> NegInf | Some (m, e) \<Rightarrow> Fin (- scaled 2 m e)))"

fun js_mul :: "jsnum \<Rightarrow> jsnum \<Rightarrow> jsnum" where
  \<comment> \<open>\<open>a * b\<close>\<close>
  "js_mul (Fin a) (Fin b) = fl (a * b)"
| "js_mul NaN _ = NaN"
| "js_mul _ NaN = NaN"
| "js_mul (Fin a) PosInf = (if a = 0 then NaN else if 0 < a then PosInf else NegInf)"
| "js_mul (Fin a) NegInf = (if a = 0 then NaN else if 0 < a then NegInf else PosInf)"
| "js_mul PosInf (Fin b) = (if b = 0 then NaN else if 0 < b then PosInf else NegInf)"
| "js_mul NegInf (Fin b) = (if b = 0 then NaN else if 0 < b then NegInf else PosInf)"
| "js_mul PosInf PosInf = PosInf"
| "js_mul NegInf NegInf = PosInf"
| "js_mul PosInf NegInf = NegInf"
| "js_mul NegInf PosInf = NegInf"

fun js_div100 :: "jsnum \<Rightarrow> jsnum" where
  \<comment> \<open>\<open>a / 100\<close>\<close>
  "js_div100 (Fin a) = fl (a / 100)"
| "js_div100 x = x"

fun js_less :: "jsnum \<Rightarrow> jsnum \<Rightarrow> bool" where
  \<comment> \<open>\<open>a < b\<close>; every comparison with \<open>NaN\<close> is false\<close>
  "js_less (Fin a) (Fin b) = (a < b)"
| "js_less NaN _ = False"
| "js_less _ NaN = False"
| "js_less NegInf b = (b \<noteq> NegInf)"
| "js_less a PosInf = (a \<noteq> PosInf)"
| "js_less PosInf _ = False"
| "js_less _ NegInf = False"

definition js_less_eq :: "jsnum \<Rightarrow> jsnum \<Rightarrow> bool" where
  \<comment> \<open>\<open>a <= b\<close>\<close>
  "js_less_eq a b = (a \<noteq> NaN \<and> b \<noteq> NaN \<and> (a = b \<or> js_less a b))"

definition isFinite :: "jsnum \<Rightarrow> bool" where
  \<comment> \<open>\<open>Number.isFinite\<close>\<close>
  "isFinite x = (case x of Fin _ \<Rightarrow> True | _ \<Rightarrow> False)"

definition falsy_num :: "jsnum \<Rightarrow> bool" where
  \<comment> \<open>\<open>!x\<close> for a number: zero and \<open>NaN\<close>\<close>
  "falsy_num x = (x = Fin 0 \<or> x = NaN)"

definition or_zero :: "jsnum \<Rightarrow> jsnum" where
  \<comment> \<open>\<open>x || 0\<close> for a number\<close>
  "or_zero x = (if falsy_num x then Fin 0 else x)"

subsection \<open>Number to text\<close>

text \<open>
  \<open>to_decimal v\<close> is the value of the text \<open>String(v)\<close> of a finite number: the decimal
  with the fewest significant digits that reads back as \<open>v\<close>, the closest to \<open>v\<close> among
  those (Number::toString); 17 digits always suffice for a binary64 value.
\<close>

definition try_digits ::
  "(int \<times> int) option \<Rightarrow> int \<Rightarrow> int \<Rightarrow> int \<Rightarrow> int \<Rightarrow> rat option" where
  \<comment> \<open>the decimal of \<open>k\<close> significant digits that reads back as \<open>n / d\<close>, whose integer part
      has \<open>p\<close> digits and whose binary64 form is \<open>v\<close>: the candidates are the two decimals
      around \<open>n / d\<close>\<close>
  "try_digits v n d p k =
     (let s = k - p;
          n' = (if 0 \<le> s then n * ipow 10 s else n);
          d' = (if 0 \<le> s then d else d * ipow 10 (- s));
          lo = n' div d';
          r = n' mod d';
          ok = (\<lambda>c. 0 < c \<and>
                 (if 0 \<le> s then fl_pos c (ipow 10 s) else fl_pos (c * ipow 10 (- s)) 1) = v)
      in if ok lo \<and> ok (lo + 1)
         then (if 2 * r < d' then Some (scaled 10 lo (- s))
               else if d' < 2 * r then Some (scaled 10 (lo + 1) (- s))
               else if even lo then Some (scaled 10 lo (- s))
               else Some (scaled 10 (lo + 1) (- s)))
         else if ok lo then Some (scaled 10 lo (- s))
         else if ok (lo + 1) then Some (scaled 10 (lo + 1) (- s))
         else None)"

fun shortest :: "(int \<times> int) option \<Rightarrow> int \<Rightarrow> int \<Rightarrow> int \<Rightarrow> int list \<Rightarrow> rat" where
  "shortest v n d p [] = Fract n d"
| "shortest v n d p (k # ks) =
     (case try_digits v n d p k of Some c \<Rightarrow> c | None \<Rightarrow> shortest v n d p ks)"

definition to_decimal :: "rat \<Rightarrow> rat" where
  "to_decimal v = (let (n, d) = quotient_of v
     in if n = 0 then 0
        else if 0 < n
        then shortest (fl_pos n d) n d (ilog_frac 10 n d + 1)
               [1, 2, 3, 4, 5, 6, 7, 8, 9, 10, 11, 12, 13, 14, 15, 16, 17]
        else - shortest (fl_pos (- n) d) (- n) d (ilog_frac 10 (- n) d + 1)
               [1, 2, 3, 4, 5, 6, 7, 8, 9, 10, 11, 12, 13, 14, 15, 16, 17])"

subsection \<open>Text to number\<close>

definition is_digit :: "char \<Rightarrow> bool" where
  "is_digit c = (48 \<le> (of_char c :: nat) \<and> (of_char c :: nat) \<le> 57)"

definition digit_value :: "char \<Rightarrow> int" where
  \<comment> \<open>the value of a digit or letter in a radix up to 16, \<open>16\<close> for any other character\<close>
  "digit_value c =
     (let k = (of_char c :: nat)
      in if 48 \<le> k \<and> k \<le> 57 then int k - 48
         else if 97 \<le> k \<and> k \<le> 102 then int k - 87
         else if 65 \<le> k \<and> k \<le> 70 then int k - 55
         else 16)"

definition digits_value :: "int \<Rightarrow> string \<Rightarrow> int" where
  "digits_value radix ds = foldl (\<lambda>acc c. radix * acc + digit_value c) 0 ds"

definition all_digits :: "int \<Rightarrow> string \<Rightarrow> bool" where
  "all_digits radix ds = (ds \<noteq> [] \<and> list_all (\<lambda>c. digit_value c < radix) ds)"

definition exponent_part :: "string \<Rightarrow> int option" where
  \<comment> \<open>nothing, or \<open>e\<close> or \<open>E\<close>, an optional sign and digits\<close>
  "exponent_part r =
     (case r of
        [] \<Rightarrow> Some 0
      | c # r' \<Rightarrow>
          if c = CHR ''e'' \<or> c = CHR ''E'' then
            (case r' of
               [] \<Rightarrow> None
             | d # r'' \<Rightarrow>
                 if d = CHR ''+'' then (if all_digits 10 r'' then Some (digits_value 10 r'') else None)
                 else if d = CHR ''-''
                 then (if all_digits 10 r'' then Some (- digits_value 10 r'') else None)
                 else if all_digits 10 r' then Some (digits_value 10 r') else None)
          else None)"

definition unsigned_decimal :: "string \<Rightarrow> rat option" where
  \<comment> \<open>digits with an optional point and exponent: \<open>12\<close>, \<open>12.\<close>, \<open>.5\<close>, \<open>1.5e-3\<close>\<close>
  "unsigned_decimal s =
     (let ip = takeWhile is_digit s;
          r1 = dropWhile is_digit s;
          point = (r1 \<noteq> [] \<and> hd r1 = CHR ''.'');
          fp = (if point then takeWhile is_digit (tl r1) else []);
          r2 = (if point then dropWhile is_digit (tl r1) else r1)
      in if ip = [] \<and> fp = [] then None
         else case exponent_part r2 of
                None \<Rightarrow> None
              | Some e \<Rightarrow> Some (scaled 10 (digits_value 10 (ip @ fp)) (e - int (length fp))))"

definition signed_decimal :: "string \<Rightarrow> rat option" where
  "signed_decimal s =
     (case s of
        [] \<Rightarrow> None
      | c # r \<Rightarrow> if c = CHR ''+'' then unsigned_decimal r
                 else if c = CHR ''-'' then map_option uminus (unsigned_decimal r)
                 else unsigned_decimal s)"

definition radix_literal :: "string \<Rightarrow> jsnum option" where
  \<comment> \<open>\<open>0x\<close>, \<open>0o\<close> and \<open>0b\<close> literals; \<open>None\<close> when the text has no such prefix\<close>
  "radix_literal t =
     (case t of
        z # x # ds \<Rightarrow>
          if z \<noteq> CHR ''0'' then None
          else (let radix = (if x = CHR ''x'' \<or> x = CHR ''X'' then 16
                             else if x = CHR ''o'' \<or> x = CHR ''O'' then 8
                             else if x = CHR ''b'' \<or> x = CHR ''B'' then 2 else 0)
                in if radix = 0 then None
                   else if all_digits radix ds then Some (fl (of_int (digits_value radix ds)))
                   else Some NaN)
      | _ \<Rightarrow> None)"

definition string_to_number :: "string \<Rightarrow> jsnum" where
  \<comment> \<open>\<open>Number(s)\<close> for a string (StringToNumber)\<close>
  "string_to_number s =
     (let t = js_trim s
      in if t = [] then Fin 0
         else if t = ''Infinity'' \<or> t = ''+Infinity'' then PosInf
         else if t = ''-Infinity'' then NegInf
         else case radix_literal t of
                Some x \<Rightarrow> x
              | None \<Rightarrow> (case signed_decimal t of None \<Rightarrow> NaN | Some q \<Rightarrow> fl q))"

subsection \<open>Values of a JSON request body\<close>

text \<open>
  A field of the request body is absent (\<open>undefined\<close>) or a JSON scalar. Arrays and objects
  are not modelled. Fields that the handlers only pass on as text (names, phones, notes)
  are absent, \<open>null\<close> or a string.
\<close>

datatype jsval = JUndefined | JNull | JBool bool | JNum jsnum | JStr string

datatype text_field = Absent | JsonNull | Text string

definition Number :: "jsval \<Rightarrow> jsnum" where
  \<comment> \<open>\<open>Number(v)\<close>\<close>
  "Number v =
     (case v of
        JUndefined \<Rightarrow> NaN
      | JNull \<Rightarrow> Fin 0
      | JBool b \<Rightarrow> Fin (if b then 1 else 0)
      | JNum x \<Rightarrow> x
      | JStr s \<Rightarrow> string_to_number s)"

definition nullish :: "jsval \<Rightarrow> bool" where
  \<comment> \<open>\<open>v == null\<close>, the test of \<open>??\<close> as well\<close>
  "nullish v = (v = JUndefined \<or> v = JNull)"

definition truthy :: "jsval \<Rightarrow> bool" where
  "truthy v =
     (case v of
        JUndefined \<Rightarrow> False
      | JNull \<Rightarrow> False
      | JBool b \<Rightarrow> b
      | JNum x \<Rightarrow> \<not> falsy_num x
      | JStr s \<Rightarrow> s \<noteq> [])"

definition text_or_null :: "text_field \<Rightarrow> string option" where
  \<comment> \<open>\<open>t || null\<close>: the empty string is falsy\<close>
  "text_or_null t = (case t of Text s \<Rightarrow> if s = [] then None else Some s | _ \<Rightarrow> None)"

definition truthy_text :: "text_field \<Rightarrow> bool" where
  "truthy_text t = (text_or_null t \<noteq> None)"

section \<open>The store\<close>

text \<open>
  The tables of src/schema.sql, rows in insertion order. Of a customer only the columns
  that a ledger query reads are kept. A \<open>NUMERIC\<close> column holds a finite decimal, a
  rational here, and PostgreSQL adds and subtracts such values exactly; its special values
  \<open>NaN\<close> and \<open>Infinity\<close> are not modelled, and a statement that is given one fails.
  \<open>created_at\<close> is the time of the request, a parameter of every handler. A
  \<open>SERIAL\<close> column draws its value from a sequence, which a rollback does not reset.
  (\<open>initDb\<close> of src/index.js creates the same tables, without \<open>agents.balance\<close> and
  \<open>sales.note\<close>, when they do not exist yet.)
\<close>

record agent_row =
  agents_id :: int
  agents_name :: string
  agents_phone :: "string option"
  agents_commission_percent :: rat
  agents_balance :: rat
  agents_created_at :: nat

record customer_row =
  customers_id :: int
  customers_customer_name :: string
  customers_product_id :: string
  customers_agent_id :: "int option"

record sale_row =
  sales_id :: int
  sales_agent_id :: int
  sales_customer_id :: "int option"
  sales_sale_price :: rat
  sales_commission_percent :: rat
  sales_commission_amount :: rat
  sales_note :: "string option"
  sales_created_at :: nat

record payout_row =
  payouts_id :: int
  payouts_agent_id :: int
  payouts_amount :: rat
  payouts_note :: "string option"
  payouts_created_at :: nat

record store =
  agents :: "agent_row list"
  customers :: "customer_row list"
  sales :: "sale_row list"
  payouts :: "payout_row list"
  agents_id_seq :: int
  sales_id_seq :: int
  payouts_id_seq :: int

definition rollback :: "store \<Rightarrow> store \<Rightarrow> store" where
  \<comment> \<open>\<open>ROLLBACK\<close> of a transaction begun in \<open>s0\<close> and now in \<open>s\<close>: the tables are restored,
      the sequences are not\<close>
  "rollback s0 s = s0\<lparr>agents_id_seq := agents_id_seq s, sales_id_seq := sales_id_seq s,
                      payouts_id_seq := payouts_id_seq s\<rparr>"

definition tables ::
  "store \<Rightarrow> agent_row list \<times> customer_row list \<times> sale_row list \<times> payout_row list" where
  "tables s = (agents s, customers s, sales s, payouts s)"

definition commission_sum :: "store \<Rightarrow> int \<Rightarrow> rat" where
  \<comment> \<open>\<open>SUM(commission_amount) FROM sales WHERE agent_id = i\<close>, \<open>0\<close> when there is no row\<close>
  "commission_sum s i =
     sum_list (map sales_commission_amount (filter (\<lambda>r. sales_agent_id r = i) (sales s)))"

definition sale_price_sum :: "store \<Rightarrow> int \<Rightarrow> rat" where
  "sale_price_sum s i =
     sum_list (map sales_sale_price (filter (\<lambda>r. sales_agent_id r = i) (sales s)))"

definition payout_sum :: "store \<Rightarrow> int \<Rightarrow> rat" where
  \<comment> \<open>\<open>SUM(amount) FROM payouts WHERE agent_id = i\<close>, \<open>0\<close> when there is no row\<close>
  "payout_sum s i =
     sum_list (map payouts_amount (filter (\<lambda>r. payouts_agent_id r = i) (payouts s)))"

subsection \<open>Query parameters and results\<close>

text \<open>
  The driver binds a number as its text \<open>String(val)\<close>, and PostgreSQL reads the text in
  the type of the column; it returns a \<open>NUMERIC\<close> column as text, which the handlers turn
  into a number with \<open>Number\<close>, that is \<open>fl\<close> of the stored decimal.
\<close>

definition numeric_param :: "jsnum \<Rightarrow> rat option" where
  \<comment> \<open>a number bound to a \<open>NUMERIC\<close> parameter; \<open>None\<close> when the statement fails\<close>
  "numeric_param x = (case x of Fin v \<Rightarrow> Some (to_decimal v) | _ \<Rightarrow> None)"

definition int4_param :: "jsnum \<Rightarrow> int option" where
  \<comment> \<open>a number bound to an \<open>INT\<close> parameter: its text must be an integer in range\<close>
  "int4_param x =
     (case x of
        Fin v \<Rightarrow> (let (n, d) = quotient_of v
                  in if d = 1 \<and> - 2147483648 \<le> n \<and> n \<le> 2147483647 then Some n else None)
      | _ \<Rightarrow> None)"

definition pg_whitespace :: "char \<Rightarrow> bool" where
  "pg_whitespace c = (of_char c \<in> {9, 10, 11, 12, 13, 32 :: nat})"

definition numeric_in :: "string \<Rightarrow> rat option" where
  \<comment> \<open>a string bound to a \<open>NUMERIC\<close> parameter: a decimal literal between optional blanks\<close>
  "numeric_in t =
     signed_decimal (rev (dropWhile pg_whitespace (rev (dropWhile pg_whitespace t))))"

definition select_agent :: "jsnum \<Rightarrow> store \<Rightarrow> agent_row list option" where
  \<comment> \<open>\<open>SELECT ... FROM agents WHERE id = $1\<close>, with or without \<open>FOR UPDATE\<close>\<close>
  "select_agent aId s =
     (case int4_param aId of
        None \<Rightarrow> None
      | Some i \<Rightarrow> Some (filter (\<lambda>a. agents_id a = i) (agents s)))"

definition agent_by_id :: "store \<Rightarrow> int \<Rightarrow> agent_row" where
  \<comment> \<open>\<open>rows[0]\<close> of \<open>SELECT ... FROM agents WHERE id = i\<close>, when there is a row\<close>
  "agent_by_id s i = hd (filter (\<lambda>a. agents_id a = i) (agents s))"

definition has_agent :: "store \<Rightarrow> int \<Rightarrow> bool" where
  "has_agent s i = (\<exists>a \<in> set (agents s). agents_id a = i)"

definition has_customer :: "store \<Rightarrow> int \<Rightarrow> bool" where
  "has_customer s i = (\<exists>c \<in> set (customers s). customers_id c = i)"

definition customer_param :: "jsnum option \<Rightarrow> int option option" where
  \<comment> \<open>the parameter for \<open>customer_id\<close>: \<open>null\<close>, or a number bound to an \<open>INT\<close>\<close>
  "customer_param cId =
     (case cId of None \<Rightarrow> Some None | Some x \<Rightarrow> map_option Some (int4_param x))"

definition customer_ok :: "store \<Rightarrow> int option \<Rightarrow> bool" where
  \<comment> \<open>the foreign key of \<open>sales.customer_id\<close>\<close>
  "customer_ok s cust = (case cust of None \<Rightarrow> True | Some k \<Rightarrow> has_customer s k)"

definition insert_sale ::
  "jsnum \<Rightarrow> jsnum option \<Rightarrow> jsnum \<Rightarrow> jsnum \<Rightarrow> jsnum \<Rightarrow> string option \<Rightarrow> nat \<Rightarrow> store
     \<Rightarrow> store \<times> int option" where
  \<comment> \<open>\<open>INSERT INTO sales(...) VALUES(...) RETURNING id\<close>: the store after the statement and
      the new id, or \<open>None\<close> when the statement fails. A parameter that cannot be read fails
      it before the sequence is advanced, a foreign key after.\<close>
  "insert_sale aId cId price pct amt note now s =
     (case (int4_param aId, numeric_param price, numeric_param pct, numeric_param amt) of
        (Some a, Some p, Some c, Some m) \<Rightarrow>
          (case customer_param cId of
             None \<Rightarrow> (s, None)
           | Some cust \<Rightarrow>
               (let i = sales_id_seq s + 1;
                    s' = s\<lparr>sales_id_seq := i\<rparr>;
                    row = \<lparr>sales_id = i, sales_agent_id = a, sales_customer_id = cust,
                           sales_sale_price = p, sales_commission_percent = c,
                           sales_commission_amount = m, sales_note = note,
                           sales_created_at = now\<rparr>
                in if has_agent s a \<and> customer_ok s cust
                   then (s'\<lparr>sales := sales s' @ [row]\<rparr>, Some i)
                   else (s', None)))
      | _ \<Rightarrow> (s, None))"

definition insert_payout ::
  "jsnum \<Rightarrow> jsnum \<Rightarrow> string option \<Rightarrow> nat \<Rightarrow> store \<Rightarrow> store \<times> int option" where
  \<comment> \<open>\<open>INSERT INTO payouts(agent_id, amount, note) VALUES($1,$2,$3) RETURNING id\<close>\<close>
  "insert_payout aId amt note now s =
     (case (int4_param aId, numeric_param amt) of
        (Some a, Some m) \<Rightarrow>
          let i = payouts_id_seq s + 1;
              s' = s\<lparr>payouts_id_seq := i\<rparr>;
              row = \<lparr>payouts_id = i, payouts_agent_id = a, payouts_amount = m,
                     payouts_note = note, payouts_created_at = now\<rparr>
          in if has_agent s a then (s'\<lparr>payouts := payouts s' @ [row]\<rparr>, Some i)
             else (s', None)
      | _ \<Rightarrow> (s, None))"

definition add_balance :: "rat \<Rightarrow> int \<Rightarrow> store \<Rightarrow> store" where
  "add_balance d i s =
     s\<lparr>agents := map (\<lambda>a. if agents_id a = i then a\<lparr>agents_balance := agents_balance a + d\<rparr>
                            else a) (agents s)\<rparr>"

definition credit_agent :: "jsnum \<Rightarrow> jsnum \<Rightarrow> store \<Rightarrow> store option" where
  \<comment> \<open>\<open>UPDATE agents SET balance = balance + $1 WHERE id = $2\<close>\<close>
  "credit_agent amt aId s =
     (case (numeric_param amt, int4_param aId) of
        (Some m, Some i) \<Rightarrow> Some (add_balance m i s)
      | _ \<Rightarrow> None)"

definition debit_agent :: "jsnum \<Rightarrow> jsnum \<Rightarrow> store \<Rightarrow> store option" where
  \<comment> \<open>\<open>UPDATE agents SET balance = balance - $1 WHERE id = $2\<close>\<close>
  "debit_agent amt aId s =
     (case (numeric_param amt, int4_param aId) of
        (Some m, Some i) \<Rightarrow> Some (add_balance (- m) i s)
      | _ \<Rightarrow> None)"

definition set_profile :: "int \<Rightarrow> string \<Rightarrow> string option \<Rightarrow> rat \<Rightarrow> agent_row \<Rightarrow> agent_row" where
  \<comment> \<open>a row of \<open>agents\<close> after \<open>UPDATE agents SET name=$1, phone=$2, commission_percent=$3
      WHERE id=$4\<close>\<close>
  "set_profile i n ph c a =
     (if agents_id a = i
      then a\<lparr>agents_name := n, agents_phone := ph, agents_commission_percent := c\<rparr> else a)"

definition insert_agent ::
  "string option \<Rightarrow> string option \<Rightarrow> rat option \<Rightarrow> nat \<Rightarrow> store \<Rightarrow> store \<times> int option" where
  \<comment> \<open>\<open>INSERT INTO agents(name, phone, commission_percent) VALUES(...) RETURNING id\<close>; the
      name is \<open>NOT NULL\<close>, the balance takes its default \<open>0\<close>\<close>
  "insert_agent nm ph pct now s =
     (case pct of
        None \<Rightarrow> (s, None)
      | Some c \<Rightarrow>
          let i = agents_id_seq s + 1;
              s' = s\<lparr>agents_id_seq := i\<rparr>
          in (case nm of
                None \<Rightarrow> (s', None)
              | Some n \<Rightarrow>
                  (s'\<lparr>agents := agents s' @
                        [\<lparr>agents_id = i, agents_name = n, agents_phone = ph,
                          agents_commission_percent = c, agents_balance = 0,
                          agents_created_at = now\<rparr>]\<rparr>, Some i)))"

definition order_desc :: "('a \<Rightarrow> nat) \<Rightarrow> 'a list \<Rightarrow> 'a list" where
  \<comment> \<open>\<open>ORDER BY key DESC\<close>; rows with the same key stay in insertion order, which SQL leaves
      open\<close>
  "order_desc key rows = sort_key (\<lambda>r. - int (key r)) rows"

definition customer_name_of :: "store \<Rightarrow> int option \<Rightarrow> string option" where
  \<comment> \<open>the column \<open>c.customer_name\<close> of \<open>LEFT JOIN customers c ON c.id = s.customer_id\<close>\<close>
  "customer_name_of s cid =
     (case cid of
        None \<Rightarrow> None
      | Some k \<Rightarrow> map_option customers_customer_name
                   (find (\<lambda>c. customers_id c = k) (customers s)))"

section \<open>Requests, responses and middleware\<close>

record headers =
  x_api_key :: "string option"
  authorization :: "string option"

record request =
  param_id :: string               \<comment> \<open>\<open>req.params.id\<close>, for a route with \<open>:id\<close>\<close>
  name :: text_field
  phone :: text_field
  commissionPercent :: jsval
  agentId :: jsval
  customerId :: jsval
  amount :: jsval
  salePrice :: jsval
  sale_price :: jsval
  body_note :: text_field          \<comment> \<open>\<open>req.body.note\<close>\<close>

record totals_row =
  totals_id :: int
  totals_name :: string
  totals_phone :: "string option"
  totals_commission_percent :: rat
  earned :: rat
  paid :: rat
  balance :: rat

definition no_fields :: request where
  \<comment> \<open>a request with an empty body\<close>
  "no_fields =
     \<lparr>param_id = [], name = Absent, phone = Absent, commissionPercent = JUndefined,
      agentId = JUndefined, customerId = JUndefined, amount = JUndefined,
      salePrice = JUndefined, sale_price = JUndefined, body_note = Absent\<rparr>"

datatype body =
    Error string                          \<comment> \<open>\<open>{ error }\<close>\<close>
  | Ok                                    \<comment> \<open>\<open>{ ok: true }\<close>\<close>
  | Ok_id int                             \<comment> \<open>\<open>{ ok: true, id }\<close>\<close>
  | Ok_sale int jsnum jsnum               \<comment> \<open>\<open>{ ok: true, id, commissionPercent, commissionAmount }\<close>\<close>
  | Ok_rows "totals_row list"             \<comment> \<open>\<open>{ ok: true, rows }\<close>\<close>
  | Ok_report agent_row rat rat rat "(sale_row \<times> string option) list" "payout_row list"
      \<comment> \<open>\<open>{ ok: true, agent, totals: { salesAmountTotal, commissionTotal, payoutsTotal },
          sales, payouts }\<close>\<close>

datatype response = Response (status: nat) (payload: body)

definition unauthorized :: response where
  "unauthorized = Response 401 (Error ''Unauthorized'')"

definition misconfigured :: response where
  "misconfigured = Response 500 (Error ''Server misconfigured'')"

definition server_error :: response where
  "server_error = Response 500 (Error ''Server error'')"

definition protected ::
  "response option \<Rightarrow> ('st \<Rightarrow> response \<times> 'st) \<Rightarrow> 'st \<Rightarrow> response \<times> 'st" where
  \<comment> \<open>\<open>app.METHOD(path, auth, handler)\<close>: the handler runs only when \<open>auth\<close> calls
      \<open>next()\<close>, which is \<open>None\<close> here; otherwise the response of \<open>auth\<close> is sent and the
      store is left as it was\<close>
  "protected a handler s = (case a of Some r \<Rightarrow> (r, s) | None \<Rightarrow> handler s)"

section \<open>The \<open>auth\<close> middleware\<close>

subsection \<open>src/index.js, first listing\<close>

definition auth_index :: "string option \<Rightarrow> headers \<Rightarrow> response option" where
  \<comment> \<open>\<open>API_KEY = process.env.API_KEY\<close>; \<open>if (req.headers["x-api-key"] !== API_KEY)\<close>\<close>
  "auth_index env h = (if x_api_key h \<noteq> env then Some unauthorized else None)"

subsection \<open>src/unnamed/part\_000\<close>

definition token_part000 :: "headers \<Rightarrow> string option" where
  "token_part000 h =
     (let token = None;
          token = (if truthy_str (x_api_key h) then map_option js_trim (x_api_key h) else token);
          token = (case authorization h of
                     None \<Rightarrow> token
                   | Some b \<Rightarrow> if b \<noteq> [] \<and> starts_with ''Bearer '' b
                               then Some (js_trim (drop 7 b)) else token)
      in token)"

definition realKey :: "string option \<Rightarrow> string" where
  \<comment> \<open>\<open>process.env.API_KEY ? String(process.env.API_KEY).trim() : ""\<close>\<close>
  "realKey env = (case env of None \<Rightarrow> [] | Some k \<Rightarrow> if k \<noteq> [] then js_trim k else [])"

definition auth_part000 :: "string option \<Rightarrow> headers \<Rightarrow> response option" where
  "auth_part000 env h =
     (let token = token_part000 h in
      if realKey env = [] then Some misconfigured
      else if \<not> truthy_str token \<or> token \<noteq> Some (realKey env) then Some unauthorized
      else None)"

subsection \<open>src/unnamed/part\_001, part\_002 and part\_003 (the same text in all three)\<close>

definition API_KEY :: "string option \<Rightarrow> string" where
  \<comment> \<open>\<open>RAW_API_KEY = process.env.API_KEY || ""\<close>, then the copy-paste prefix is dropped\<close>
  "API_KEY env =
     (let RAW_API_KEY = (if truthy_str env then the env else [])
      in if starts_with ''API_KEY='' RAW_API_KEY
         then js_replace ''API_KEY='' [] RAW_API_KEY else RAW_API_KEY)"

definition token_v42 :: "headers \<Rightarrow> string option" where
  "token_v42 h =
     (let token = None;
          token = (if truthy_str (x_api_key h) then x_api_key h else token);
          token = (case authorization h of
                     None \<Rightarrow> token
                   | Some b \<Rightarrow> if b \<noteq> [] \<and> starts_with ''Bearer '' b
                               then Some (js_trim (js_replace ''Bearer '' [] b)) else token)
      in token)"

definition auth_v42 :: "string \<Rightarrow> headers \<Rightarrow> response option" where
  \<comment> \<open>\<open>if (!API_KEY || !token || token !== API_KEY)\<close>\<close>
  "auth_v42 key h =
     (let token = token_v42 h in
      if key = [] \<or> \<not> truthy_str token \<or> token \<noteq> Some key then Some unauthorized
      else None)"

section \<open>The ledger handlers of src/unnamed/part\_003\<close>

text \<open>
  Each handler takes the request, the time and the store, and returns the response and the
  store it leaves. A handler runs from start to end without another one in between. A
  statement that fails throws; the \<open>catch\<close> block rolls back and answers 500.
\<close>

definition post_api_agents :: "request \<Rightarrow> nat \<Rightarrow> store \<Rightarrow> response \<times> store" where
  \<comment> \<open>\<open>POST /api/agents\<close>: the parameters are \<open>String(name).trim()\<close>, \<open>phone || null\<close> and
      \<open>commissionPercent ?? 0\<close>, the last one as the client gave it\<close>
  "post_api_agents req now s =
     (if \<not> truthy_text (name req) \<or> js_trim (the (text_or_null (name req))) = []
      then (Response 400 (Error ''name is required''), s)
      else
        let pct = (if nullish (commissionPercent req) then numeric_param (Fin 0)
                   else (case commissionPercent req of
                           JNum x \<Rightarrow> numeric_param x
                         | JStr t \<Rightarrow> numeric_in t
                         | _ \<Rightarrow> None));
            (s1, inserted) =
              insert_agent (Some (js_trim (the (text_or_null (name req)))))
                (text_or_null (phone req)) pct now s
        in (case inserted of
              None \<Rightarrow> (server_error, s1)
            | Some i \<Rightarrow> (Response 200 (Ok_id i), s1)))"

definition sale_transaction ::
  "jsnum \<Rightarrow> jsnum option \<Rightarrow> jsnum \<Rightarrow> string option \<Rightarrow> nat \<Rightarrow> store \<Rightarrow> response \<times> store" where
  \<comment> \<open>from \<open>BEGIN\<close> to \<open>COMMIT\<close> in \<open>POST /api/sales\<close>\<close>
  "sale_transaction aId cId price note now s =
     (case select_agent aId s of
        None \<Rightarrow> (server_error, rollback s s)
      | Some rows \<Rightarrow>
          if rows = [] then (Response 404 (Error ''agent not found''), rollback s s)
          else
            let commissionPercent = or_zero (fl (agents_commission_percent (hd rows)));
                commissionAmount = js_div100 (js_mul price commissionPercent);
                cust = (case cId of
                          None \<Rightarrow> None
                        | Some c \<Rightarrow> if isFinite c then Some c else None);
                (s1, inserted) =
                  insert_sale aId cust price commissionPercent commissionAmount note now s
            in (case inserted of
                  None \<Rightarrow> (server_error, rollback s s1)
                | Some i \<Rightarrow>
                    (case credit_agent commissionAmount aId s1 of
                       None \<Rightarrow> (server_error, rollback s s1)
                     | Some s2 \<Rightarrow>
                         (Response 200 (Ok_sale i commissionPercent commissionAmount), s2))))"

definition post_api_sales :: "request \<Rightarrow> nat \<Rightarrow> store \<Rightarrow> response \<times> store" where
  \<comment> \<open>\<open>POST /api/sales\<close>\<close>
  "post_api_sales req now s =
     (let aId = Number (agentId req);
          cId = (if nullish (customerId req) then None else Some (Number (customerId req)));
          rawPrice = (if \<not> nullish (salePrice req) then salePrice req
                      else if \<not> nullish (sale_price req) then sale_price req
                      else amount req);
          price = Number rawPrice
      in if \<not> isFinite aId then (Response 400 (Error ''agentId is required''), s)
         else if \<not> isFinite price \<or> js_less_eq price (Fin 0)
         then (Response 400 (Error ''salePrice must be > 0''), s)
         else sale_transaction aId cId price (text_or_null (body_note req)) now s)"

definition payout_transaction ::
  "jsnum \<Rightarrow> jsnum \<Rightarrow> string option \<Rightarrow> nat \<Rightarrow> store \<Rightarrow> response \<times> store" where
  \<comment> \<open>from \<open>BEGIN\<close> to \<open>COMMIT\<close> in \<open>POST /api/payouts\<close>\<close>
  "payout_transaction aId amt note now s =
     (case select_agent aId s of
        None \<Rightarrow> (server_error, rollback s s)
      | Some rows \<Rightarrow>
          if rows = [] then (Response 404 (Error ''agent not found''), rollback s s)
          else
            let bal = or_zero (fl (agents_balance (hd rows)))
            in if js_less bal amt
               then (Response 400 (Error ''insufficient balance''), rollback s s)
               else
                 (let (s1, inserted) = insert_payout aId amt note now s
                  in (case inserted of
                        None \<Rightarrow> (server_error, rollback s s1)
                      | Some i \<Rightarrow>
                          (case debit_agent amt aId s1 of
                             None \<Rightarrow> (server_error, rollback s s1)
                           | Some s2 \<Rightarrow> (Response 200 (Ok_id i), s2)))))"

definition post_api_payouts :: "request \<Rightarrow> nat \<Rightarrow> store \<Rightarrow> response \<times> store" where
  \<comment> \<open>\<open>POST /api/payouts\<close>\<close>
  "post_api_payouts req now s =
     (let aId = Number (agentId req);
          amt = Number (amount req)
      in if \<not> isFinite aId then (Response 400 (Error ''agentId is required''), s)
         else if \<not> isFinite amt \<or> js_less_eq amt (Fin 0)
         then (Response 400 (Error ''amount must be > 0''), s)
         else payout_transaction aId amt (text_or_null (body_note req)) now s)"

definition get_api_agents_id_report :: "request \<Rightarrow> store \<Rightarrow> response \<times> store" where
  \<comment> \<open>\<open>GET /api/agents/:id/report\<close>; the rows of \<open>sales\<close> and \<open>payouts\<close> are returned with
      the columns as stored, the sales with the customer's name joined\<close>
  "get_api_agents_id_report req s =
     (let agentId = string_to_number (param_id req)
      in if \<not> isFinite agentId then (Response 400 (Error ''invalid agent id''), s)
         else
           (case select_agent agentId s of
              None \<Rightarrow> (server_error, s)
            | Some rows \<Rightarrow>
               if rows = [] then (Response 404 (Error ''agent not found''), s)
               else
                 let i = agents_id (hd rows);
                     salesRes = take 200 (order_desc sales_created_at
                                  (filter (\<lambda>r. sales_agent_id r = i) (sales s)));
                     payoutsRes = take 200 (order_desc payouts_created_at
                                    (filter (\<lambda>r. payouts_agent_id r = i) (payouts s)))
                 in (Response 200
                       (Ok_report (hd rows) (sale_price_sum s i) (commission_sum s i)
                          (payout_sum s i)
                          (map (\<lambda>r. (r, customer_name_of s (sales_customer_id r))) salesRes)
                          payoutsRes), s)))"

section \<open>The ledger handlers of src/index.js (second listing)\<close>

text \<open>
  This listing keeps no balance column: the balance of an agent is computed from the
  ledger rows by \<open>agentTotals\<close>. It uses no transaction.
\<close>

definition totals_of :: "store \<Rightarrow> agent_row \<Rightarrow> totals_row" where
  "totals_of s a =
     \<lparr>totals_id = agents_id a, totals_name = agents_name a, totals_phone = agents_phone a,
      totals_commission_percent = agents_commission_percent a,
      earned = commission_sum s (agents_id a),
      paid = payout_sum s (agents_id a),
      balance = commission_sum s (agents_id a) - payout_sum s (agents_id a)\<rparr>"

definition agentTotals :: "jsnum option \<Rightarrow> store \<Rightarrow> totals_row list option" where
  \<comment> \<open>\<open>agentTotals(agentId = null)\<close>; \<open>None\<close> when the query throws. The rows are ordered by
      \<open>created_at\<close>, then \<open>id\<close>.\<close>
  "agentTotals aId s =
     (let rows = sort_key agents_created_at (sort_key agents_id (agents s))
      in case aId of
           None \<Rightarrow> Some (map (totals_of s) rows)
         | Some a \<Rightarrow>
             if falsy_num a then Some (map (totals_of s) rows)
             else (case int4_param a of
                     None \<Rightarrow> None
                   | Some i \<Rightarrow> Some (map (totals_of s) (filter (\<lambda>r. agents_id r = i) rows))))"

definition get_api_agents_index :: "store \<Rightarrow> response \<times> store" where
  \<comment> \<open>\<open>GET /api/agents\<close>\<close>
  "get_api_agents_index s =
     (case agentTotals None s of
        None \<Rightarrow> (server_error, s)
      | Some rows \<Rightarrow> (Response 200 (Ok_rows rows), s))"

definition post_api_agents_index :: "request \<Rightarrow> nat \<Rightarrow> store \<Rightarrow> response \<times> store" where
  \<comment> \<open>\<open>POST /api/agents\<close>\<close>
  "post_api_agents_index req now s =
     (if \<not> truthy_text (name req) then (Response 400 (Error ''name required''), s)
      else if \<not> truthy_text (phone req) then (Response 400 (Error ''phone required''), s)
      else
        let pct = Number (if truthy (commissionPercent req) then commissionPercent req
                          else JNum (Fin 0))
        in if pct = NaN \<or> js_less pct (Fin 0) \<or> js_less (Fin 100) pct
           then (Response 400 (Error ''commissionPercent must be 0-100''), s)
           else
             (let (s1, inserted) =
                    insert_agent (text_or_null (name req)) (text_or_null (phone req))
                      (numeric_param pct) now s
              in (case inserted of
                    None \<Rightarrow> (server_error, s1)
                  | Some i \<Rightarrow> (Response 200 (Ok_id i), s1))))"

definition put_api_agents_id :: "request \<Rightarrow> store \<Rightarrow> response \<times> store" where
  \<comment> \<open>\<open>PUT /api/agents/:id\<close>; a field that is \<open>undefined\<close> keeps its stored value, a
      \<open>null\<close> name violates \<open>NOT NULL\<close>\<close>
  "put_api_agents_id req s =
     (let id = string_to_number (param_id req);
          pct = (if commissionPercent req = JUndefined then None
                 else Some (Number (commissionPercent req)))
      in if falsy_num id then (Response 400 (Error ''invalid id''), s)
         else if (case pct of
                    None \<Rightarrow> False
                  | Some x \<Rightarrow> x = NaN \<or> js_less x (Fin 0) \<or> js_less (Fin 100) x)
         then (Response 400 (Error ''commissionPercent must be 0-100''), s)
         else
           (case select_agent id s of
              None \<Rightarrow> (server_error, s)
            | Some rows \<Rightarrow>
               if rows = [] then (Response 404 (Error ''agent not found''), s)
               else
                 let cur = hd rows;
                     nextName = (case name req of
                                   Absent \<Rightarrow> Some (agents_name cur)
                                 | JsonNull \<Rightarrow> None
                                 | Text t \<Rightarrow> Some t);
                     nextPhone = (case phone req of
                                    Absent \<Rightarrow> agents_phone cur
                                  | JsonNull \<Rightarrow> None
                                  | Text t \<Rightarrow> Some t);
                     nextPct = (case pct of
                                  None \<Rightarrow> Some (agents_commission_percent cur)
                                | Some x \<Rightarrow> numeric_param x)
                 in (case (nextName, nextPct) of
                       (Some n, Some c) \<Rightarrow>
                         (Response 200 Ok,
                          s\<lparr>agents :=
                              map (\<lambda>a. if agents_id a = agents_id cur
                                        then a\<lparr>agents_name := n, agents_phone := nextPhone,
                                               agents_commission_percent := c\<rparr>
                                        else a) (agents s)\<rparr>)
                     | _ \<Rightarrow> (server_error, s))))"

definition post_api_agents_id_payouts :: "request \<Rightarrow> nat \<Rightarrow> store \<Rightarrow> response \<times> store" where
  \<comment> \<open>\<open>POST /api/agents/:id/payouts\<close>; the balance text of \<open>agentTotals\<close> is a non-empty
      string, so \<open>Number(totals[0].balance || 0)\<close> is its number\<close>
  "post_api_agents_id_payouts req now s =
     (let agentId = string_to_number (param_id req);
          amt = Number (amount req);
          note = (case text_or_null (body_note req) of None \<Rightarrow> [] | Some t \<Rightarrow> t)
      in if falsy_num agentId then (Response 400 (Error ''invalid agentId''), s)
         else if falsy_num amt \<or> js_less_eq amt (Fin 0)
         then (Response 400 (Error ''amount must be > 0''), s)
         else
           (case agentTotals (Some agentId) s of
              None \<Rightarrow> (server_error, s)
            | Some totals \<Rightarrow>
               if totals = [] then (Response 404 (Error ''agent not found''), s)
               else
                 let bal = fl (balance (hd totals))
                 in if js_less bal amt
                    then (Response 400 (Error ''amount exceeds balance''), s)
                    else
                      (let (s1, inserted) = insert_payout agentId amt (Some note) now s
                       in (case inserted of
                             None \<Rightarrow> (server_error, s1)
                           | Some i \<Rightarrow> (Response 200 (Ok_id i), s1)))))"

definition post_api_sales_index :: "request \<Rightarrow> nat \<Rightarrow> store \<Rightarrow> response \<times> store" where
  \<comment> \<open>\<open>POST /api/sales\<close>; the percent text read from the row is a non-empty string, so
      \<open>Number(commission_percent || 0)\<close> is its number\<close>
  "post_api_sales_index req now s =
     (let cId = Number (customerId req);
          aId = Number (agentId req);
          price = Number (salePrice req)
      in if falsy_num cId then (Response 400 (Error ''customerId required''), s)
         else if falsy_num aId then (Response 400 (Error ''agentId required''), s)
         else if falsy_num price \<or> js_less_eq price (Fin 0)
         then (Response 400 (Error ''salePrice must be > 0''), s)
         else
           (case select_agent aId s of
              None \<Rightarrow> (server_error, s)
            | Some rows \<Rightarrow>
               if rows = [] then (Response 404 (Error ''agent not found''), s)
               else
                 let pct = fl (agents_commission_percent (hd rows));
                     commissionAmount = js_div100 (js_mul price pct);
                     (s1, inserted) =
                       insert_sale aId (Some cId) price pct commissionAmount None now s
                 in (case inserted of
                       None \<Rightarrow> (server_error, s1)
                     | Some i \<Rightarrow> (Response 200 (Ok_sale i pct commissionAmount), s1))))"

section \<open>Two payout requests at once in src/index.js\<close>

text \<open>
  \<open>POST /api/agents/:id/payouts\<close> of src/index.js opens no transaction and takes no lock.
  It awaits the query of \<open>agentTotals\<close>, compares the amount with the balance it read, and
  then awaits the \<open>INSERT\<close>. Each query is a statement of its own, and while a request
  waits for one, the statements of another request may run. The handler is cut here at its
  second \<open>await\<close>: \<open>payout_approval\<close> is the part up to the comparison, which only reads
  the store, and \<open>payout_insertion\<close> is the rest.
\<close>

datatype pending =
    Answered response                     \<comment> \<open>the handler has returned\<close>
  | Insert_payout jsnum jsnum string      \<comment> \<open>the parameters \<open>[agentId, amount, note]\<close> of the \<open>INSERT\<close>\<close>

definition payout_approval :: "request \<Rightarrow> store \<Rightarrow> pending" where
  "payout_approval req s =
     (let agentId = string_to_number (param_id req);
          amt = Number (amount req);
          note = (case text_or_null (body_note req) of None \<Rightarrow> [] | Some t \<Rightarrow> t)
      in if falsy_num agentId then Answered (Response 400 (Error ''invalid agentId''))
         else if falsy_num amt \<or> js_less_eq amt (Fin 0)
         then Answered (Response 400 (Error ''amount must be > 0''))
         else
           (case agentTotals (Some agentId) s of
              None \<Rightarrow> Answered server_error
            | Some totals \<Rightarrow>
               if totals = [] then Answered (Response 404 (Error ''agent not found''))
               else
                 let bal = fl (balance (hd totals))
                 in if js_less bal amt
                    then Answered (Response 400 (Error ''amount exceeds balance''))
                    else Insert_payout agentId amt note))"

definition payout_insertion :: "pending \<Rightarrow> nat \<Rightarrow> store \<Rightarrow> response \<times> store" where
  "payout_insertion p now s =
     (case p of
        Answered r \<Rightarrow> (r, s)
      | Insert_payout aId amt text \<Rightarrow>
          (let (s1, inserted) = insert_payout aId amt (Some text) now s
           in (case inserted of
                 None \<Rightarrow> (server_error, s1)
               | Some i \<Rightarrow> (Response 200 (Ok_id i), s1))))"

definition payouts_in_turn ::
  "request \<Rightarrow> nat \<Rightarrow> request \<Rightarrow> nat \<Rightarrow> store \<Rightarrow> response \<times> response \<times> store" where
  \<comment> \<open>the second request starts when the first has been answered\<close>
  "payouts_in_turn req1 now1 req2 now2 s =
     (let (r1, s1) = post_api_agents_id_payouts req1 now1 s;
          (r2, s2) = post_api_agents_id_payouts req2 now2 s1
      in (r1, r2, s2))"

definition payouts_interleaved ::
  "request \<Rightarrow> nat \<Rightarrow> request \<Rightarrow> nat \<Rightarrow> store \<Rightarrow> response \<times> response \<times> store" where
  \<comment> \<open>both requests have read their totals before either inserts\<close>
  "payouts_interleaved req1 now1 req2 now2 s =
     (let p1 = payout_approval req1 s;
          p2 = payout_approval req2 s;
          (r1, s1) = payout_insertion p1 now1 s;
          (r2, s2) = payout_insertion p2 now2 s1
      in (r1, r2, s2))"

section \<open>Sequences of ledger calls\<close>

datatype ledger_call = RecordSale request nat | RecordPayout request nat

fun run_part003 :: "store \<Rightarrow> ledger_call list \<Rightarrow> store" where
  "run_part003 s [] = s"
| "run_part003 s (RecordSale req now # cs) = run_part003 (snd (post_api_sales req now s)) cs"
| "run_part003 s (RecordPayout req now # cs) = run_part003 (snd (post_api_payouts req now s)) cs"

fun run_index :: "store \<Rightarrow> ledger_call list \<Rightarrow> store" where
  "run_index s [] = s"
| "run_index s (RecordSale req now # cs) =
     run_index (snd (post_api_sales_index req now s)) cs"
| "run_index s (RecordPayout req now # cs) =
     run_index (snd (post_api_agents_id_payouts req now s)) cs"

definition balances_consistent :: "store \<Rightarrow> bool" where
  \<comment> \<open>the balance column of every agent is the sum of its commissions minus the sum of its
      payouts\<close>
  "balances_consistent s =
     list_all (\<lambda>a. agents_balance a = commission_sum s (agents_id a) - payout_sum s (agents_id a))
       (agents s)"

section \<open>Example data\<close>

definition agent_A :: "rat \<Rightarrow> rat \<Rightarrow> agent_row" where
  \<comment> \<open>agent 1, with a commission percent and a balance\<close>
  "agent_A pct bal =
     \<lparr>agents_id = 1, agents_name = ''A'', agents_phone = None,
      agents_commission_percent = pct, agents_balance = bal, agents_created_at = 1\<rparr>"

definition customer_C :: customer_row where
  "customer_C =
     \<lparr>customers_id = 1, customers_customer_name = ''C'', customers_product_id = ''P'',
      customers_agent_id = None\<rparr>"

definition one_agent :: "rat \<Rightarrow> rat \<Rightarrow> store" where
  \<comment> \<open>a store with agent 1, customer 1 and an empty ledger\<close>
  "one_agent pct bal =
     \<lparr>agents = [agent_A pct bal], customers = [customer_C], sales = [], payouts = [],
      agents_id_seq = 1, sales_id_seq = 0, payouts_id_seq = 0\<rparr>"

definition sale_of :: "jsval \<Rightarrow> jsval \<Rightarrow> jsval \<Rightarrow> request" where
  \<comment> \<open>the body \<open>{ agentId, customerId, salePrice }\<close>\<close>
  "sale_of a c p = no_fields\<lparr>agentId := a, customerId := c, salePrice := p\<rparr>"

definition payout_of :: "jsval \<Rightarrow> jsval \<Rightarrow> request" where
  \<comment> \<open>the body \<open>{ agentId, amount }\<close>\<close>
  "payout_of a m = no_fields\<lparr>agentId := a, amount := m\<rparr>"

definition payout_at :: "string \<Rightarrow> jsval \<Rightarrow> request" where
  \<comment> \<open>the body \<open>{ amount }\<close> sent to \<open>/api/agents/:id/payouts\<close>\<close>
  "payout_at i m = no_fields\<lparr>param_id := i, amount := m\<rparr>"

definition sale_A :: "int \<Rightarrow> int option \<Rightarrow> rat \<Rightarrow> rat \<Rightarrow> nat \<Rightarrow> sale_row" where
  \<comment> \<open>a sale row of agent 1 at 10 percent: id, customer, price, commission, time\<close>
  "sale_A i c price m now =
     \<lparr>sales_id = i, sales_agent_id = 1, sales_customer_id = c, sales_sale_price = price,
      sales_commission_percent = 10, sales_commission_amount = m, sales_note = None,
      sales_created_at = now\<rparr>"

definition payout_A :: "int \<Rightarrow> rat \<Rightarrow> string option \<Rightarrow> nat \<Rightarrow> payout_row" where
  \<comment> \<open>a payout row of agent 1: id, amount, note, time\<close>
  "payout_A i m note now =
     \<lparr>payouts_id = i, payouts_agent_id = 1, payouts_amount = m, payouts_note = note,
      payouts_created_at = now\<rparr>"

definition ledger :: "rat \<Rightarrow> sale_row list \<Rightarrow> payout_row list \<Rightarrow> store" where
  \<comment> \<open>the store of agent 1 at 10 percent with a balance and ledger rows\<close>
  "ledger bal ss ps =
     \<lparr>agents = [agent_A 10 bal], customers = [customer_C], sales = ss, payouts = ps,
      agents_id_seq = 1, sales_id_seq = int (length ss), payouts_id_seq = int (length ps)\<rparr>"

definition ledger_20 :: store where
  \<comment> \<open>\<open>one_agent 10 0\<close> after a sale of 200\<close>
  "ledger_20 = ledger 20 [sale_A 1 None 200 20 2] []"

definition ledger_0 :: store where
  \<comment> \<open>\<open>ledger_20\<close> after a payout of 20\<close>
  "ledger_0 = ledger 0 [sale_A 1 None 200 20 2] [payout_A 1 20 None 4]"

definition ledger_20_at_20 :: store where
  \<comment> \<open>\<open>ledger_20\<close> after the percent of agent 1 was set to 20\<close>
  "ledger_20_at_20 = ledger_20\<lparr>agents := [agent_A 20 20]\<rparr>"

definition sale_at_20 :: "int \<Rightarrow> int option \<Rightarrow> rat \<Rightarrow> rat \<Rightarrow> nat \<Rightarrow> sale_row" where
  \<comment> \<open>a sale row of agent 1 at 20 percent\<close>
  "sale_at_20 i c price m now = (sale_A i c price m now)\<lparr>sales_commission_percent := 20\<rparr>"

definition ledger_099 :: store where
  \<comment> \<open>\<open>one_agent 10 0\<close> after sales of 9.53 and 0.47 in part\_003\<close>
  "ledger_099 =
     ledger (99999999999999999 / 100000000000000000)
       [sale_A 1 None (953 / 100) (953 / 1000) 2,
        sale_A 2 None (47 / 100) (4699999999999999 / 100000000000000000) 3] []"

definition index_ledger_099 :: store where
  \<comment> \<open>\<open>one_agent 10 0\<close> after sales of 9.53 and 0.47 to customer 1 in src/index.js, which
      leaves the balance column alone\<close>
  "index_ledger_099 =
     ledger 0
       [sale_A 1 (Some 1) (953 / 100) (953 / 1000) 2,
        sale_A 2 (Some 1) (47 / 100) (4699999999999999 / 100000000000000000) 3] []"

definition index_ledger_20 :: store where
  \<comment> \<open>\<open>one_agent 10 0\<close> after a sale of 200 to customer 1 in src/index.js\<close>
  "index_ledger_20 = ledger 0 [sale_A 1 (Some 1) 200 20 2] []"

section \<open>Properties of \<open>auth\<close>\<close>

lemma js_replace_prefix:
  "starts_with pat s \<Longrightarrow> js_replace pat [] s = drop (length pat) s"
  by (cases s) (auto simp: starts_with_def)

lemma starts_with_nonempty: "starts_with (p # ps) s \<Longrightarrow> s \<noteq> []"
  by (auto simp: starts_with_def)

lemma token_v42_bearer:
  assumes "authorization h = Some b" and "starts_with ''Bearer '' b"
  shows "token_v42 h = Some (js_trim (drop 7 b))"
proof -
  have "b \<noteq> []" using assms(2) by (rule starts_with_nonempty)
  moreover have "js_replace ''Bearer '' [] b = drop 7 b"
    using js_replace_prefix [OF assms(2)] by (simp add: eval_nat_numeral)
  ultimately show ?thesis using assms by (simp add: token_v42_def)
qed

lemma token_part000_bearer:
  assumes "authorization h = Some b" and "starts_with ''Bearer '' b"
  shows "token_part000 h = Some (js_trim (drop 7 b))"
proof -
  have "b \<noteq> []" using assms(2) by (rule starts_with_nonempty)
  then show ?thesis using assms by (simp add: token_part000_def)
qed

lemma token_v42_no_credential:
  "x_api_key h = None \<Longrightarrow> authorization h = None \<Longrightarrow> token_v42 h = None"
  by (simp add: token_v42_def truthy_str_def)

lemma token_part000_no_credential:
  "x_api_key h = None \<Longrightarrow> authorization h = None \<Longrightarrow> token_part000 h = None"
  by (simp add: token_part000_def truthy_str_def)

lemma auth_v42_mismatch: "token_v42 h \<noteq> Some key \<Longrightarrow> auth_v42 key h = Some unauthorized"
  by (simp add: auth_v42_def)

lemma auth_v42_no_key: "auth_v42 [] h = Some unauthorized"
  by (simp add: auth_v42_def)

lemma auth_part000_mismatch:
  "realKey env \<noteq> [] \<Longrightarrow> token_part000 h \<noteq> Some (realKey env) \<Longrightarrow>
   auth_part000 env h = Some unauthorized"
  by (simp add: auth_part000_def)

lemma auth_part000_no_key: "realKey env = [] \<Longrightarrow> auth_part000 env h = Some misconfigured"
  by (simp add: auth_part000_def)

text \<open>
  C7, as amended. With a secret configured, a request without credential, or whose token
  differs from the secret, is answered 401 by each of the three \<open>auth\<close> functions and the
  route handler is not run, so the store is untouched whatever the handler is. With the
  secret missing, part\_000 answers 500, while part\_001 to part\_003 answer 401. The token is
  the \<open>x-api-key\<close> value, or the text after \<open>Bearer\<close> with surrounding white space removed
  (part\_000 also trims the \<open>x-api-key\<close> value and the secret).
\<close>
theorem auth_rejects_before_handler:
  "(env = Some k \<and> x_api_key h \<noteq> Some k \<longrightarrow>
      protected (auth_index env h) handler s = (Response 401 (Error ''Unauthorized''), s))
   \<and> (realKey env \<noteq> [] \<and> token_part000 h \<noteq> Some (realKey env) \<longrightarrow>
      protected (auth_part000 env h) handler s = (Response 401 (Error ''Unauthorized''), s))
   \<and> (token_v42 h \<noteq> Some (API_KEY env) \<longrightarrow>
      protected (auth_v42 (API_KEY env) h) handler s = (Response 401 (Error ''Unauthorized''), s))
   \<and> (x_api_key h = None \<and> authorization h = None \<longrightarrow>
      token_part000 h = None \<and> token_v42 h = None)
   \<and> (realKey env = [] \<longrightarrow>
      protected (auth_part000 env h) handler s = (Response 500 (Error ''Server misconfigured''), s))
   \<and> (API_KEY env = [] \<longrightarrow>
      protected (auth_v42 (API_KEY env) h) handler s = (Response 401 (Error ''Unauthorized''), s))"
proof -
  have "env = Some k \<and> x_api_key h \<noteq> Some k \<longrightarrow>
      protected (auth_index env h) handler s = (Response 401 (Error ''Unauthorized''), s)"
    by (simp add: protected_def auth_index_def unauthorized_def)
  moreover have "realKey env \<noteq> [] \<and> token_part000 h \<noteq> Some (realKey env) \<longrightarrow>
      protected (auth_part000 env h) handler s = (Response 401 (Error ''Unauthorized''), s)"
    by (simp add: protected_def auth_part000_mismatch unauthorized_def)
  moreover have "token_v42 h \<noteq> Some (API_KEY env) \<longrightarrow>
      protected (auth_v42 (API_KEY env) h) handler s = (Response 401 (Error ''Unauthorized''), s)"
    by (simp add: protected_def auth_v42_mismatch unauthorized_def)
  moreover have "x_api_key h = None \<and> authorization h = None \<longrightarrow>
      token_part000 h = None \<and> token_v42 h = None"
    by (simp add: token_part000_no_credential token_v42_no_credential)
  moreover have "realKey env = [] \<longrightarrow>
      protected (auth_part000 env h) handler s = (Response 500 (Error ''Server misconfigured''), s)"
    by (simp add: protected_def auth_part000_no_key misconfigured_def)
  moreover have "API_KEY env = [] \<longrightarrow>
      protected (auth_v42 (API_KEY env) h) handler s = (Response 401 (Error ''Unauthorized''), s)"
    by (simp add: protected_def auth_v42_no_key unauthorized_def)
  ultimately show ?thesis by blast
qed

text \<open>
  A run of the theorem: the secret is \<open>s3cret\<close>, the request carries the wrong key
  \<open>guess\<close>; and a server without secret. The handler here would answer 200.
\<close>
theorem auth_rejects_before_handler_witness:
  "protected (auth_index (Some ''s3cret'') \<lparr>x_api_key = Some ''guess'', authorization = None\<rparr>)
      (\<lambda>n. (Response 200 Ok, Suc n)) (0::nat) = (Response 401 (Error ''Unauthorized''), 0)
   \<and> protected (auth_part000 (Some ''s3cret'') \<lparr>x_api_key = Some ''guess'', authorization = None\<rparr>)
      (\<lambda>n. (Response 200 Ok, Suc n)) (0::nat) = (Response 401 (Error ''Unauthorized''), 0)
   \<and> protected (auth_v42 (API_KEY (Some ''s3cret'')) \<lparr>x_api_key = Some ''guess'', authorization = None\<rparr>)
      (\<lambda>n. (Response 200 Ok, Suc n)) (0::nat) = (Response 401 (Error ''Unauthorized''), 0)
   \<and> protected (auth_part000 None \<lparr>x_api_key = Some ''guess'', authorization = None\<rparr>)
      (\<lambda>n. (Response 200 Ok, Suc n)) (0::nat) = (Response 500 (Error ''Server misconfigured''), 0)
   \<and> protected (auth_v42 (API_KEY None) \<lparr>x_api_key = Some ''guess'', authorization = None\<rparr>)
      (\<lambda>n. (Response 200 Ok, Suc n)) (0::nat) = (Response 401 (Error ''Unauthorized''), 0)"
proof -
  let ?h = "\<lparr>x_api_key = Some ''guess'', authorization = None\<rparr>"
  have a: "realKey (Some ''s3cret'') = ''s3cret''" "API_KEY (Some ''s3cret'') = ''s3cret''"
    "realKey None = []" "API_KEY None = []"
    by (simp_all add: realKey_def API_KEY_def js_trim_def js_whitespace_def truthy_str_def
        starts_with_def)
  have t: "token_part000 ?h = Some ''guess''" "token_v42 ?h = Some ''guess''"
    by (simp_all add: token_part000_def token_v42_def js_trim_def js_whitespace_def
        truthy_str_def)
  show ?thesis
    using auth_rejects_before_handler [of "Some ''s3cret''" "''s3cret''" ?h
        "\<lambda>n. (Response 200 Ok, Suc n)" "0::nat"]
      auth_rejects_before_handler [of None "''s3cret''" ?h
        "\<lambda>n. (Response 200 Ok, Suc n)" "0::nat"]
    by (simp add: a t)
qed

text \<open>
  C7 as stated fails: with no secret configured, \<open>auth\<close> of part\_001 to part\_003 answers
  401, not 500.
\<close>
theorem auth_no_secret_is_401:
  "auth_v42 (API_KEY None) \<lparr>x_api_key = Some ''guess'', authorization = None\<rparr>
     = Some (Response 401 (Error ''Unauthorized''))
   \<and> status (Response 401 (Error ''Unauthorized'')) \<noteq> 500"
  by (simp add: auth_v42_def API_KEY_def truthy_str_def starts_with_def unauthorized_def)

text \<open>
  C10. When the request carries an \<open>x-api-key\<close> header and an \<open>Authorization\<close> header that
  starts with \<open>Bearer\<close>, the token is the Bearer text alone, and \<open>auth\<close> compares it with
  the secret: the outcome is the same for every \<open>x-api-key\<close> value; a Bearer token that
  differs from the secret is rejected, also when the \<open>x-api-key\<close> value is the secret; and
  a Bearer token equal to the secret (which is not empty) is let through, so that the
  handler runs, also when the \<open>x-api-key\<close> value is wrong.
\<close>
theorem bearer_overrides_api_key:
  assumes "x_api_key h = Some k" and "authorization h = Some b"
    and "starts_with ''Bearer '' b"
  shows "token_v42 h = Some (js_trim (drop 7 b))
     \<and> auth_v42 key (h\<lparr>x_api_key := k'\<rparr>) = auth_v42 key h
     \<and> (js_trim (drop 7 b) \<noteq> key \<longrightarrow> auth_v42 key h = Some unauthorized)
     \<and> token_part000 h = Some (js_trim (drop 7 b))
     \<and> auth_part000 env (h\<lparr>x_api_key := k'\<rparr>) = auth_part000 env h
     \<and> (js_trim (drop 7 b) \<noteq> realKey env \<longrightarrow>
          auth_part000 env h = Some unauthorized \<or> auth_part000 env h = Some misconfigured)
     \<and> (key \<noteq> [] \<and> js_trim (drop 7 b) = key \<longrightarrow>
          auth_v42 key h = None \<and> protected (auth_v42 key h) handler s = handler s)
     \<and> (realKey env \<noteq> [] \<and> js_trim (drop 7 b) = realKey env \<longrightarrow>
          auth_part000 env h = None \<and> protected (auth_part000 env h) handler s = handler s)
     \<and> auth_v42 key h
         = (if key \<noteq> [] \<and> js_trim (drop 7 b) = key then None else Some unauthorized)
     \<and> auth_part000 env h
         = (if realKey env = [] then Some misconfigured
            else if js_trim (drop 7 b) = realKey env then None else Some unauthorized)"
proof -
  have h': "authorization (h\<lparr>x_api_key := k'\<rparr>) = Some b" using assms(2) by simp
  have t: "token_v42 h = Some (js_trim (drop 7 b))"
    and t': "token_v42 (h\<lparr>x_api_key := k'\<rparr>) = Some (js_trim (drop 7 b))"
    using token_v42_bearer [OF assms(2,3)] token_v42_bearer [OF h' assms(3)] by simp_all
  have u: "token_part000 h = Some (js_trim (drop 7 b))"
    and u': "token_part000 (h\<lparr>x_api_key := k'\<rparr>) = Some (js_trim (drop 7 b))"
    using token_part000_bearer [OF assms(2,3)] token_part000_bearer [OF h' assms(3)]
    by simp_all
  have v: "auth_v42 key h
         = (if key \<noteq> [] \<and> js_trim (drop 7 b) = key then None else Some unauthorized)"
    by (auto simp: auth_v42_def t truthy_str_def)
  have p: "auth_part000 env h
         = (if realKey env = [] then Some misconfigured
            else if js_trim (drop 7 b) = realKey env then None else Some unauthorized)"
    by (auto simp: auth_part000_def u truthy_str_def Let_def)
  have "auth_v42 key (h\<lparr>x_api_key := k'\<rparr>) = auth_v42 key h"
    by (simp add: auth_v42_def t t')
  moreover have "js_trim (drop 7 b) \<noteq> key \<longrightarrow> auth_v42 key h = Some unauthorized"
    by (simp add: auth_v42_mismatch t)
  moreover have "auth_part000 env (h\<lparr>x_api_key := k'\<rparr>) = auth_part000 env h"
    by (simp add: auth_part000_def u u')
  moreover have "js_trim (drop 7 b) \<noteq> realKey env \<longrightarrow>
      auth_part000 env h = Some unauthorized \<or> auth_part000 env h = Some misconfigured"
    by (simp add: auth_part000_def u Let_def)
  moreover have "key \<noteq> [] \<and> js_trim (drop 7 b) = key \<longrightarrow>
          auth_v42 key h = None \<and> protected (auth_v42 key h) handler s = handler s"
    by (simp add: v protected_def)
  moreover have "realKey env \<noteq> [] \<and> js_trim (drop 7 b) = realKey env \<longrightarrow>
          auth_part000 env h = None \<and> protected (auth_part000 env h) handler s = handler s"
    by (simp add: p protected_def)
  ultimately show ?thesis using t u v p by blast
qed

text \<open>
  Runs of the theorem: the \<open>x-api-key\<close> value is the secret and the Bearer token is not,
  which is rejected; the Bearer token is the secret and the \<open>x-api-key\<close> value is not,
  which is let through to a handler that answers 200.
\<close>
theorem bearer_overrides_api_key_witness:
  "x_api_key \<lparr>x_api_key = Some ''s3cret'', authorization = Some ''Bearer guess''\<rparr> = Some ''s3cret''
   \<and> starts_with ''Bearer '' ''Bearer guess''
   \<and> auth_v42 ''s3cret'' \<lparr>x_api_key = Some ''s3cret'', authorization = Some ''Bearer guess''\<rparr>
       = Some unauthorized
   \<and> auth_part000 (Some ''s3cret'') \<lparr>x_api_key = Some ''s3cret'', authorization = Some ''Bearer guess''\<rparr>
       = Some unauthorized
   \<and> starts_with ''Bearer '' ''Bearer s3cret''
   \<and> auth_v42 ''s3cret'' \<lparr>x_api_key = Some ''guess'', authorization = Some ''Bearer s3cret''\<rparr>
       = None
   \<and> auth_part000 (Some ''s3cret'') \<lparr>x_api_key = Some ''guess'', authorization = Some ''Bearer s3cret''\<rparr>
       = None
   \<and> protected (auth_v42 ''s3cret''
          \<lparr>x_api_key = Some ''guess'', authorization = Some ''Bearer s3cret''\<rparr>)
        (\<lambda>n. (Response 200 Ok, Suc n)) (0::nat) = (Response 200 Ok, 1)
   \<and> protected (auth_part000 (Some ''s3cret'')
          \<lparr>x_api_key = Some ''guess'', authorization = Some ''Bearer s3cret''\<rparr>)
        (\<lambda>n. (Response 200 Ok, Suc n)) (0::nat) = (Response 200 Ok, 1)"
proof -
  let ?h = "\<lparr>x_api_key = Some ''s3cret'', authorization = Some ''Bearer guess''\<rparr>"
  let ?g = "\<lparr>x_api_key = Some ''guess'', authorization = Some ''Bearer s3cret''\<rparr>"
  have p: "starts_with ''Bearer '' ''Bearer guess''" "starts_with ''Bearer '' ''Bearer s3cret''"
    by (simp_all add: starts_with_def)
  have r: "realKey (Some ''s3cret'') = ''s3cret''"
    by (simp add: realKey_def js_trim_def js_whitespace_def)
  have g: "js_trim ''guess'' = ''guess''" "js_trim ''s3cret'' = ''s3cret''"
    by (simp_all add: js_trim_def js_whitespace_def)
  have m: "auth_part000 (Some ''s3cret'') ?h \<noteq> Some misconfigured"
    by (simp add: auth_part000_def r misconfigured_def unauthorized_def Let_def)
  have one: "auth_v42 ''s3cret'' ?h = Some unauthorized
      \<and> auth_part000 (Some ''s3cret'') ?h = Some unauthorized"
    using bearer_overrides_api_key [of ?h "''s3cret''" "''Bearer guess''" "''s3cret''" None
        "Some ''s3cret''"] p m
    by (simp add: g r)
  have two: "auth_v42 ''s3cret'' ?g = None \<and> auth_part000 (Some ''s3cret'') ?g = None
      \<and> protected (auth_v42 ''s3cret'' ?g) (\<lambda>n. (Response 200 Ok, Suc n)) (0::nat)
          = (Response 200 Ok, 1)
      \<and> protected (auth_part000 (Some ''s3cret'') ?g) (\<lambda>n. (Response 200 Ok, Suc n)) (0::nat)
          = (Response 200 Ok, 1)"
    using bearer_overrides_api_key [of ?g "''guess''" "''Bearer s3cret''" "''s3cret''" None
        "Some ''s3cret''" "\<lambda>n. (Response 200 Ok, Suc n)" "0::nat"] p
    by (simp add: g r protected_def)
  show ?thesis using one two p by (simp add: protected_def)
qed

section \<open>Statements and transactions of part\_003\<close>

lemma rollback_same [simp]: "rollback s s = s"
  by (simp add: rollback_def)

lemma tables_rollback [simp]: "tables (rollback s0 s) = tables s0"
  by (simp add: rollback_def tables_def)

lemma insert_sale_failed:
  "insert_sale aId cId price pct amt note now s = (s1, None) \<Longrightarrow> tables s1 = tables s"
  by (auto simp: insert_sale_def tables_def Let_def split: option.splits if_splits prod.splits)

lemma insert_sale_done:
  assumes "insert_sale aId cId price pct amt note now s = (s1, Some i)"
  shows "\<exists>a p c m cust.
           int4_param aId = Some a \<and> numeric_param price = Some p \<and> numeric_param pct = Some c
         \<and> numeric_param amt = Some m \<and> customer_param cId = Some cust
         \<and> has_agent s a \<and> customer_ok s cust
         \<and> i = sales_id_seq s + 1
         \<and> s1 = s\<lparr>sales_id_seq := i,
                   sales := sales s @ [\<lparr>sales_id = i, sales_agent_id = a, sales_customer_id = cust,
                          sales_sale_price = p, sales_commission_percent = c,
                          sales_commission_amount = m, sales_note = note,
                          sales_created_at = now\<rparr>]\<rparr>"
  using assms
  by (auto simp: insert_sale_def Let_def split: option.splits if_splits prod.splits)

lemma insert_payout_failed:
  "insert_payout aId amt note now s = (s1, None) \<Longrightarrow> tables s1 = tables s"
  by (auto simp: insert_payout_def tables_def Let_def split: option.splits if_splits prod.splits)

lemma insert_payout_done:
  assumes "insert_payout aId amt note now s = (s1, Some i)"
  shows "\<exists>a m.
           int4_param aId = Some a \<and> numeric_param amt = Some m \<and> has_agent s a
         \<and> i = payouts_id_seq s + 1
         \<and> s1 = s\<lparr>payouts_id_seq := i,
                   payouts := payouts s @ [\<lparr>payouts_id = i, payouts_agent_id = a,
                       payouts_amount = m, payouts_note = note, payouts_created_at = now\<rparr>]\<rparr>"
  using assms
  by (auto simp: insert_payout_def Let_def split: option.splits if_splits prod.splits)

text \<open>What a sale transaction can do: fail and keep the tables, or append one row and credit
  its commission.\<close>

lemma sale_transaction_outcome:
  assumes "sale_transaction aId cId price note now s = (r, s')"
  shows "(r = server_error \<and> tables s' = tables s)
       \<or> (r = Response 404 (Error ''agent not found'') \<and> s' = s)
       \<or> (\<exists>a p c m cust row.
             int4_param aId = Some a \<and> has_agent s a
           \<and> numeric_param price = Some p
           \<and> numeric_param (or_zero (fl (agents_commission_percent (agent_by_id s a)))) = Some c
           \<and> numeric_param (js_div100 (js_mul price
                 (or_zero (fl (agents_commission_percent (agent_by_id s a)))))) = Some m
           \<and> row = \<lparr>sales_id = sales_id_seq s + 1, sales_agent_id = a, sales_customer_id = cust,
                      sales_sale_price = p, sales_commission_percent = c,
                      sales_commission_amount = m, sales_note = note, sales_created_at = now\<rparr>
           \<and> r = Response 200 (Ok_sale (sales_id_seq s + 1)
                   (or_zero (fl (agents_commission_percent (agent_by_id s a))))
                   (js_div100 (js_mul price
                     (or_zero (fl (agents_commission_percent (agent_by_id s a)))))))
           \<and> s' = add_balance m a (s\<lparr>sales_id_seq := sales_id_seq s + 1, sales := sales s @ [row]\<rparr>))"
proof (cases "select_agent aId s")
  case None
  then show ?thesis using assms by (simp add: sale_transaction_def)
next
  case (Some rows)
  then obtain a where a: "int4_param aId = Some a" and rows: "rows = filter (\<lambda>x. agents_id x = a) (agents s)"
    by (auto simp: select_agent_def split: option.splits)
  have hd_rows: "hd rows = agent_by_id s a" by (simp add: rows agent_by_id_def)
  show ?thesis
  proof (cases "rows = []")
    case True
    then show ?thesis using assms Some by (simp add: sale_transaction_def)
  next
    case False
    let ?pct = "or_zero (fl (agents_commission_percent (hd rows)))"
    let ?amt = "js_div100 (js_mul price ?pct)"
    let ?cust = "case cId of None \<Rightarrow> None | Some c \<Rightarrow> if isFinite c then Some c else None"
    obtain s1 ins where ins: "insert_sale aId ?cust price ?pct ?amt note now s = (s1, ins)"
      by (cases "insert_sale aId ?cust price ?pct ?amt note now s") auto
    show ?thesis
    proof (cases ins)
      case None
      then have "tables s1 = tables s" using ins insert_sale_failed by blast
      then show ?thesis using assms Some False ins None
        by (auto simp: sale_transaction_def Let_def tables_def rollback_def)
    next
      case (Some i)
      from insert_sale_done [OF ins [unfolded Some]] a
      obtain p c m cust where d:
        "numeric_param price = Some p" "numeric_param ?pct = Some c" "numeric_param ?amt = Some m"
        "customer_param ?cust = Some cust" "has_agent s a" "i = sales_id_seq s + 1"
        "s1 = s\<lparr>sales_id_seq := i,
                   sales := sales s @ [\<lparr>sales_id = i, sales_agent_id = a, sales_customer_id = cust,
                          sales_sale_price = p, sales_commission_percent = c,
                          sales_commission_amount = m, sales_note = note,
                          sales_created_at = now\<rparr>]\<rparr>"
        by auto
      have "credit_agent ?amt aId s1 = Some (add_balance m a s1)"
        by (simp add: credit_agent_def d a)
      then have "r = Response 200 (Ok_sale i ?pct ?amt)" "s' = add_balance m a s1"
        using assms \<open>select_agent aId s = Some rows\<close> False ins Some
        by (auto simp: sale_transaction_def Let_def)
      then show ?thesis using d a hd_rows by auto
    qed
  qed
qed

lemma payout_transaction_outcome:
  assumes "payout_transaction aId amt note now s = (r, s')"
  shows "(r = server_error \<and> tables s' = tables s)
       \<or> (r = Response 404 (Error ''agent not found'') \<and> s' = s)
       \<or> (r = Response 400 (Error ''insufficient balance'') \<and> s' = s)
       \<or> (\<exists>a m row.
             int4_param aId = Some a \<and> has_agent s a
           \<and> \<not> js_less (or_zero (fl (agents_balance (agent_by_id s a)))) amt
           \<and> numeric_param amt = Some m
           \<and> row = \<lparr>payouts_id = payouts_id_seq s + 1, payouts_agent_id = a, payouts_amount = m,
                      payouts_note = note, payouts_created_at = now\<rparr>
           \<and> r = Response 200 (Ok_id (payouts_id_seq s + 1))
           \<and> s' = add_balance (- m) a
                    (s\<lparr>payouts_id_seq := payouts_id_seq s + 1, payouts := payouts s @ [row]\<rparr>))"
proof (cases "select_agent aId s")
  case None
  then show ?thesis using assms by (simp add: payout_transaction_def)
next
  case (Some rows)
  then obtain a where a: "int4_param aId = Some a"
    and rows: "rows = filter (\<lambda>x. agents_id x = a) (agents s)"
    by (auto simp: select_agent_def split: option.splits)
  have hd_rows: "hd rows = agent_by_id s a" by (simp add: rows agent_by_id_def)
  show ?thesis
  proof (cases "rows = [] \<or> js_less (or_zero (fl (agents_balance (hd rows)))) amt")
    case True
    then show ?thesis using assms Some
      by (auto simp: payout_transaction_def Let_def split: if_splits)
  next
    case False
    obtain s1 ins where ins: "insert_payout aId amt note now s = (s1, ins)"
      by (cases "insert_payout aId amt note now s") auto
    show ?thesis
    proof (cases ins)
      case None
      then have "tables s1 = tables s" using ins insert_payout_failed by blast
      then show ?thesis using assms Some False ins None
        by (auto simp: payout_transaction_def Let_def tables_def rollback_def)
    next
      case (Some i)
      from insert_payout_done [OF ins [unfolded Some]] a
      obtain m where d: "numeric_param amt = Some m" "has_agent s a" "i = payouts_id_seq s + 1"
        "s1 = s\<lparr>payouts_id_seq := i,
                 payouts := payouts s @ [\<lparr>payouts_id = i, payouts_agent_id = a,
                       payouts_amount = m, payouts_note = note, payouts_created_at = now\<rparr>]\<rparr>"
        by auto
      have "debit_agent amt aId s1 = Some (add_balance (- m) a s1)"
        by (simp add: debit_agent_def d a)
      then have "r = Response 200 (Ok_id i)" "s' = add_balance (- m) a s1"
        using assms \<open>select_agent aId s = Some rows\<close> False ins Some
        by (auto simp: payout_transaction_def Let_def)
      then show ?thesis using d a hd_rows False by auto
    qed
  qed
qed

lemma post_api_sales_outcome:
  assumes "post_api_sales req now s = (r, s')"
  shows "(status r = 400 \<and> s' = s)
       \<or> (\<exists>aId cId price. isFinite price \<and> \<not> js_less_eq price (Fin 0)
             \<and> sale_transaction aId cId price (text_or_null (body_note req)) now s = (r, s'))"
  using assms by (auto simp: post_api_sales_def Let_def split: if_splits)

lemma post_api_payouts_outcome:
  assumes "post_api_payouts req now s = (r, s')"
  shows "(status r = 400 \<and> s' = s)
       \<or> (\<exists>aId amt. isFinite amt \<and> \<not> js_less_eq amt (Fin 0)
             \<and> payout_transaction aId amt (text_or_null (body_note req)) now s = (r, s'))"
  using assms by (auto simp: post_api_payouts_def Let_def split: if_splits)

lemma status_server_error [simp]: "status server_error = 500"
  by (simp add: server_error_def)

lemma tables_add_balance:
  "tables (add_balance d i s) = (map (\<lambda>a. if agents_id a = i then a\<lparr>agents_balance := agents_balance a + d\<rparr> else a) (agents s), customers s, sales s, payouts s)"
  by (simp add: add_balance_def tables_def)

lemma post_api_sales_failed:
  assumes "post_api_sales req now s = (r, s')" and "status r \<noteq> 200"
  shows "tables s' = tables s \<and> (status r = 400 \<or> status r = 404 \<longrightarrow> s' = s)"
proof -
  from post_api_sales_outcome [OF assms(1)] show ?thesis
  proof
    assume "status r = 400 \<and> s' = s" then show ?thesis by simp
  next
    assume "\<exists>aId cId price. isFinite price \<and> \<not> js_less_eq price (Fin 0)
             \<and> sale_transaction aId cId price (text_or_null (body_note req)) now s = (r, s')"
    then obtain aId cId price where
      "sale_transaction aId cId price (text_or_null (body_note req)) now s = (r, s')" by blast
    from sale_transaction_outcome [OF this] assms(2) show ?thesis by auto
  qed
qed

lemma post_api_payouts_failed:
  assumes "post_api_payouts req now s = (r, s')" and "status r \<noteq> 200"
  shows "tables s' = tables s \<and> (status r = 400 \<or> status r = 404 \<longrightarrow> s' = s)"
proof -
  from post_api_payouts_outcome [OF assms(1)] show ?thesis
  proof
    assume "status r = 400 \<and> s' = s" then show ?thesis by simp
  next
    assume "\<exists>aId amt. isFinite amt \<and> \<not> js_less_eq amt (Fin 0)
             \<and> payout_transaction aId amt (text_or_null (body_note req)) now s = (r, s')"
    then obtain aId amt where
      "payout_transaction aId amt (text_or_null (body_note req)) now s = (r, s')" by blast
    from payout_transaction_outcome [OF this] assms(2) show ?thesis by auto
  qed
qed

section \<open>Arithmetic on concrete numbers\<close>

lemma isFinite_simps:
  "isFinite (Fin x)" "\<not> isFinite NaN" "\<not> isFinite PosInf" "\<not> isFinite NegInf"
  by (simp_all add: isFinite_def)

lemma falsy_num_simps:
  "falsy_num (Fin x) \<longleftrightarrow> x = 0" "falsy_num NaN" "\<not> falsy_num PosInf" "\<not> falsy_num NegInf"
  by (simp_all add: falsy_num_def)

lemma js_less_eq_Fin: "js_less_eq (Fin a) (Fin b) \<longleftrightarrow> a \<le> b"
  by (auto simp: js_less_eq_def)

lemma or_zero_Fin: "or_zero (Fin x) = Fin x"
  by (simp add: or_zero_def falsy_num_def)

lemma numeric_param_Fin: "numeric_param (Fin v) = Some (to_decimal v)"
  by (simp add: numeric_param_def)

lemma int4_param_1: "int4_param (Fin 1) = Some 1" by code_simp
lemma int4_param_7: "int4_param (Fin 7) = Some 7" by code_simp
lemma fl_0: "fl 0 = Fin 0" by code_simp
lemma fl_10: "fl 10 = Fin 10" by code_simp
lemma fl_20: "fl 20 = Fin 20" by code_simp
lemma fl_2000: "fl 2000 = Fin 2000" by code_simp
lemma to_decimal_1: "to_decimal 1 = 1" by code_simp
lemma to_decimal_10: "to_decimal 10 = 10" by code_simp
lemma to_decimal_20: "to_decimal 20 = 20" by code_simp
lemma to_decimal_150: "to_decimal 150 = 150" by code_simp
lemma to_decimal_200: "to_decimal 200 = 200" by code_simp
lemma string_to_number_abc: "string_to_number ''abc'' = NaN" by code_simp
lemma string_to_number_1: "string_to_number ''1'' = Fin 1" by code_simp

lemmas number_facts =
  isFinite_simps falsy_num_simps js_less_eq_Fin or_zero_Fin numeric_param_Fin
  int4_param_1 int4_param_7 fl_0 fl_10 fl_20 fl_2000 to_decimal_1 to_decimal_10 to_decimal_20
  to_decimal_150 to_decimal_200 string_to_number_abc string_to_number_1

lemmas handler_defs =
  post_api_sales_def post_api_payouts_def sale_transaction_def payout_transaction_def
  post_api_sales_index_def post_api_agents_id_payouts_def agentTotals_def totals_of_def
  get_api_agents_id_report_def order_desc_def customer_name_of_def
  commission_sum_def payout_sum_def sale_price_sum_def
  Let_def Number_def nullish_def select_agent_def insert_sale_def
  insert_payout_def customer_param_def customer_ok_def has_agent_def has_customer_def
  credit_agent_def debit_agent_def add_balance_def
  text_or_null_def no_fields_def rollback_def server_error_def
  agent_A_def customer_C_def one_agent_def sale_of_def payout_of_def payout_at_def
  sale_A_def payout_A_def ledger_def

section \<open>A ledger by hand\<close>

text \<open>
  The scenario of the specification: agent A earns 10 percent; a sale of 200 credits 20; a
  payout of 25 is refused; a payout of 20 brings the balance to 0.
\<close>

lemma sale_200:
  "post_api_sales (sale_of (JNum (Fin 1)) JUndefined (JNum (Fin 200))) 2 (one_agent 10 0)
     = (Response 200 (Ok_sale 1 (Fin 10) (Fin 20)), ledger_20)"
  by (simp add: handler_defs number_facts ledger_20_def)

lemma payout_25:
  "post_api_payouts (payout_of (JNum (Fin 1)) (JNum (Fin 25))) 3 ledger_20
     = (Response 400 (Error ''insufficient balance''), ledger_20)"
  by (simp add: handler_defs number_facts ledger_20_def)

lemma payout_20:
  "post_api_payouts (payout_of (JNum (Fin 1)) (JNum (Fin 20))) 4 ledger_20
     = (Response 200 (Ok_id 1), ledger_0)"
  by (simp add: handler_defs number_facts ledger_20_def ledger_0_def)

lemma report_ledger_0:
  "get_api_agents_id_report (no_fields\<lparr>param_id := ''1''\<rparr>) ledger_0
     = (Response 200
          (Ok_report (agent_A 10 0) 200 20 20 [(sale_A 1 None 200 20 2, None)]
             [payout_A 1 20 None 4]), ledger_0)"
  by (simp add: handler_defs number_facts ledger_0_def)

lemma index_run:
  "run_index (one_agent 10 0)
     [RecordSale (sale_of (JNum (Fin 1)) (JNum (Fin 1)) (JNum (Fin 200))) 2,
      RecordPayout (payout_at ''1'' (JNum (Fin 20))) 3]
   = ledger 0 [sale_A 1 (Some 1) 200 20 2] [payout_A 1 20 (Some []) 3]"
  by (simp add: handler_defs number_facts)

section \<open>Failed calls\<close>

lemma post_api_sales_invalid:
  "\<not> isFinite (Number (if \<not> nullish (salePrice req) then salePrice req
                        else if \<not> nullish (sale_price req) then sale_price req else amount req))
   \<or> js_less_eq (Number (if \<not> nullish (salePrice req) then salePrice req
                        else if \<not> nullish (sale_price req) then sale_price req else amount req)) (Fin 0)
   \<Longrightarrow> status (fst (post_api_sales req now s)) = 400"
  by (auto simp: post_api_sales_def Let_def)

lemma post_api_payouts_invalid:
  "\<not> isFinite (Number (amount req)) \<or> js_less_eq (Number (amount req)) (Fin 0)
   \<Longrightarrow> status (fst (post_api_payouts req now s)) = 400"
  by (auto simp: post_api_payouts_def Let_def)

lemma select_agent_unknown:
  "int4_param aId = Some a \<Longrightarrow> \<not> has_agent s a \<Longrightarrow> select_agent aId s = Some []"
  by (auto simp: select_agent_def has_agent_def filter_empty_conv)

lemma select_agent_known:
  "int4_param aId = Some a \<Longrightarrow> has_agent s a \<Longrightarrow>
   \<exists>rows. select_agent aId s = Some rows \<and> rows \<noteq> [] \<and> hd rows = agent_by_id s a"
  by (auto simp: select_agent_def has_agent_def filter_empty_conv agent_by_id_def)

lemma int4_param_finite: "int4_param x = Some a \<Longrightarrow> isFinite x"
  by (auto simp: int4_param_def isFinite_def split: jsnum.splits)

lemma sale_transaction_unknown_agent:
  "int4_param aId = Some a \<Longrightarrow> \<not> has_agent s a \<Longrightarrow>
   sale_transaction aId cId price note now s = (Response 404 (Error ''agent not found''), s)"
  by (simp add: sale_transaction_def select_agent_unknown)

lemma payout_transaction_unknown_agent:
  "int4_param aId = Some a \<Longrightarrow> \<not> has_agent s a \<Longrightarrow>
   payout_transaction aId amt note now s = (Response 404 (Error ''agent not found''), s)"
  by (simp add: payout_transaction_def select_agent_unknown)

lemma payout_transaction_insufficient:
  assumes "int4_param aId = Some a" and "has_agent s a"
    and "js_less (or_zero (fl (agents_balance (agent_by_id s a)))) amt"
  shows "payout_transaction aId amt note now s = (Response 400 (Error ''insufficient balance''), s)"
proof -
  from select_agent_known [OF assms(1,2)] obtain rows where
    "select_agent aId s = Some rows" "rows \<noteq> []" "hd rows = agent_by_id s a" by blast
  then show ?thesis using assms(3) by (simp add: payout_transaction_def)
qed

text \<open>
  C6. A call of \<open>POST /api/sales\<close> or \<open>POST /api/payouts\<close> that does not answer 200
  leaves every table as it was, and one that answers 400 or 404 leaves the whole store as
  it was. An amount that is not a finite number or not positive is answered 400, an agent
  id that no agent has is answered 404 (400 when the amount is invalid as well), and a
  payout above the balance that the handler reads is answered 400.
\<close>
theorem failed_call_leaves_store:
  "(status (fst (post_api_sales req now s)) \<noteq> 200 \<longrightarrow>
      tables (snd (post_api_sales req now s)) = tables s)
   \<and> (status (fst (post_api_sales req now s)) = 400 \<or> status (fst (post_api_sales req now s)) = 404 \<longrightarrow>
      snd (post_api_sales req now s) = s)
   \<and> (status (fst (post_api_payouts req now s)) \<noteq> 200 \<longrightarrow>
      tables (snd (post_api_payouts req now s)) = tables s)
   \<and> (status (fst (post_api_payouts req now s)) = 400 \<or> status (fst (post_api_payouts req now s)) = 404 \<longrightarrow>
      snd (post_api_payouts req now s) = s)
   \<and> (\<not> isFinite (Number (salePrice req)) \<or> js_less_eq (Number (salePrice req)) (Fin 0) \<longrightarrow>
      \<not> nullish (salePrice req) \<longrightarrow> status (fst (post_api_sales req now s)) = 400)
   \<and> (\<not> isFinite (Number (amount req)) \<or> js_less_eq (Number (amount req)) (Fin 0) \<longrightarrow>
      status (fst (post_api_payouts req now s)) = 400)
   \<and> (int4_param (Number (agentId req)) = Some a \<and> \<not> has_agent s a \<longrightarrow>
      status (fst (post_api_sales req now s)) \<in> {400, 404}
      \<and> status (fst (post_api_payouts req now s)) \<in> {400, 404})
   \<and> (int4_param (Number (agentId req)) = Some a \<and> has_agent s a
        \<and> js_less (or_zero (fl (agents_balance (agent_by_id s a)))) (Number (amount req)) \<longrightarrow>
      status (fst (post_api_payouts req now s)) = 400)"
proof -
  obtain r1 s1 where 1: "post_api_sales req now s = (r1, s1)"
    by (cases "post_api_sales req now s") auto
  obtain r2 s2 where 2: "post_api_payouts req now s = (r2, s2)"
    by (cases "post_api_payouts req now s") auto
  have a: "status r1 \<noteq> 200 \<longrightarrow> tables s1 = tables s \<and> (status r1 = 400 \<or> status r1 = 404 \<longrightarrow> s1 = s)"
    using post_api_sales_failed [OF 1] by blast
  have b: "status r2 \<noteq> 200 \<longrightarrow> tables s2 = tables s \<and> (status r2 = 400 \<or> status r2 = 404 \<longrightarrow> s2 = s)"
    using post_api_payouts_failed [OF 2] by blast
  have c: "\<not> isFinite (Number (salePrice req)) \<or> js_less_eq (Number (salePrice req)) (Fin 0) \<longrightarrow>
      \<not> nullish (salePrice req) \<longrightarrow> status (fst (post_api_sales req now s)) = 400"
    using post_api_sales_invalid [of req now s] by auto
  have d: "\<not> isFinite (Number (amount req)) \<or> js_less_eq (Number (amount req)) (Fin 0) \<longrightarrow>
      status (fst (post_api_payouts req now s)) = 400"
    using post_api_payouts_invalid [of req now s] by blast
  have e: "int4_param (Number (agentId req)) = Some a \<and> \<not> has_agent s a \<longrightarrow>
      status (fst (post_api_sales req now s)) \<in> {400, 404}
      \<and> status (fst (post_api_payouts req now s)) \<in> {400, 404}"
    by (auto simp: post_api_sales_def post_api_payouts_def Let_def
        sale_transaction_unknown_agent payout_transaction_unknown_agent)
  have f: "int4_param (Number (agentId req)) = Some a \<and> has_agent s a
        \<and> js_less (or_zero (fl (agents_balance (agent_by_id s a)))) (Number (amount req)) \<longrightarrow>
      status (fst (post_api_payouts req now s)) = 400"
    by (auto simp: post_api_payouts_def Let_def payout_transaction_insufficient)
  show ?thesis using a b c d e f by (simp add: 1 2)
qed

text \<open>
  Runs of the theorem: a payout whose amount is no number, a negative one, one for an
  unknown agent, one above the balance; a sale at price 0, and one for an unknown agent.
\<close>
theorem failed_call_leaves_store_witness:
  "post_api_payouts (payout_of (JNum (Fin 1)) (JStr ''abc'')) 5 ledger_20
     = (Response 400 (Error ''amount must be > 0''), ledger_20)
   \<and> post_api_payouts (payout_of (JNum (Fin 1)) (JNum (Fin (- 5)))) 5 ledger_20
     = (Response 400 (Error ''amount must be > 0''), ledger_20)
   \<and> post_api_payouts (payout_of (JNum (Fin 7)) (JNum (Fin 5))) 5 ledger_20
     = (Response 404 (Error ''agent not found''), ledger_20)
   \<and> post_api_payouts (payout_of (JNum (Fin 1)) (JNum (Fin 25))) 5 ledger_20
     = (Response 400 (Error ''insufficient balance''), ledger_20)
   \<and> post_api_sales (sale_of (JNum (Fin 1)) JUndefined (JNum (Fin 0))) 5 ledger_20
     = (Response 400 (Error ''salePrice must be > 0''), ledger_20)
   \<and> post_api_sales (sale_of (JNum (Fin 7)) JUndefined (JNum (Fin 5))) 5 ledger_20
     = (Response 404 (Error ''agent not found''), ledger_20)"
proof -
  let ?p1 = "payout_of (JNum (Fin 1)) (JStr ''abc'')"
  let ?p2 = "payout_of (JNum (Fin 1)) (JNum (Fin (- 5)))"
  let ?p3 = "payout_of (JNum (Fin 7)) (JNum (Fin 5))"
  let ?p4 = "payout_of (JNum (Fin 1)) (JNum (Fin 25))"
  let ?s1 = "sale_of (JNum (Fin 1)) JUndefined (JNum (Fin 0))"
  let ?s2 = "sale_of (JNum (Fin 7)) JUndefined (JNum (Fin 5))"
  have f1: "fst (post_api_payouts ?p1 5 ledger_20) = Response 400 (Error ''amount must be > 0'')"
    by (simp add: handler_defs number_facts ledger_20_def)
  have f2: "fst (post_api_payouts ?p2 5 ledger_20) = Response 400 (Error ''amount must be > 0'')"
    by (simp add: handler_defs number_facts ledger_20_def)
  have f3: "fst (post_api_payouts ?p3 5 ledger_20) = Response 404 (Error ''agent not found'')"
    by (simp add: handler_defs number_facts ledger_20_def)
  have f4: "fst (post_api_payouts ?p4 5 ledger_20) = Response 400 (Error ''insufficient balance'')"
    by (simp add: handler_defs number_facts ledger_20_def)
  have f5: "fst (post_api_sales ?s1 5 ledger_20) = Response 400 (Error ''salePrice must be > 0'')"
    by (simp add: handler_defs number_facts ledger_20_def)
  have f6: "fst (post_api_sales ?s2 5 ledger_20) = Response 404 (Error ''agent not found'')"
    by (simp add: handler_defs number_facts ledger_20_def)
  have "snd (post_api_payouts ?p1 5 ledger_20) = ledger_20"
    using failed_call_leaves_store [of ?p1 5 ledger_20] f1 by simp
  moreover have "snd (post_api_payouts ?p2 5 ledger_20) = ledger_20"
    using failed_call_leaves_store [of ?p2 5 ledger_20] f2 by simp
  moreover have "snd (post_api_payouts ?p3 5 ledger_20) = ledger_20"
    using failed_call_leaves_store [of ?p3 5 ledger_20] f3 by simp
  moreover have "snd (post_api_payouts ?p4 5 ledger_20) = ledger_20"
    using failed_call_leaves_store [of ?p4 5 ledger_20] f4 by simp
  moreover have "snd (post_api_sales ?s1 5 ledger_20) = ledger_20"
    using failed_call_leaves_store [of ?s1 5 ledger_20] f5 by simp
  moreover have "snd (post_api_sales ?s2 5 ledger_20) = ledger_20"
    using failed_call_leaves_store [of ?s2 5 ledger_20] f6 by simp
  ultimately show ?thesis using f1 f2 f3 f4 f5 f6 by (simp add: prod_eq_iff)
qed

section \<open>The balance invariant\<close>

lemma balances_consistent_iff:
  "balances_consistent s \<longleftrightarrow>
   (\<forall>a \<in> set (agents s). agents_balance a = commission_sum s (agents_id a) - payout_sum s (agents_id a))"
  by (simp add: balances_consistent_def list_all_iff)

lemma balances_consistent_tables:
  "tables s' = tables s \<Longrightarrow> balances_consistent s' = balances_consistent s"
  by (simp add: balances_consistent_iff tables_def commission_sum_def payout_sum_def)

lemma credit_keeps_consistent:
  assumes "balances_consistent s" and "sales_agent_id row = a" and "sales_commission_amount row = m"
  shows "balances_consistent (add_balance m a (s\<lparr>sales_id_seq := k, sales := sales s @ [row]\<rparr>))"
  using assms
  by (auto simp: balances_consistent_iff add_balance_def commission_sum_def payout_sum_def)

lemma debit_keeps_consistent:
  assumes "balances_consistent s" and "payouts_agent_id row = a" and "payouts_amount row = m"
  shows "balances_consistent (add_balance (- m) a (s\<lparr>payouts_id_seq := k, payouts := payouts s @ [row]\<rparr>))"
  using assms
  by (auto simp: balances_consistent_iff add_balance_def commission_sum_def payout_sum_def)

lemma post_api_sales_consistent:
  assumes "balances_consistent s"
  shows "balances_consistent (snd (post_api_sales req now s))"
proof -
  obtain r s' where p: "post_api_sales req now s = (r, s')"
    by (cases "post_api_sales req now s") auto
  from post_api_sales_outcome [OF p] have "balances_consistent s'"
  proof
    assume "status r = 400 \<and> s' = s" then show ?thesis using assms by simp
  next
    assume "\<exists>aId cId price. isFinite price \<and> \<not> js_less_eq price (Fin 0)
             \<and> sale_transaction aId cId price (text_or_null (body_note req)) now s = (r, s')"
    then obtain aId cId price where
      "sale_transaction aId cId price (text_or_null (body_note req)) now s = (r, s')" by blast
    from sale_transaction_outcome [OF this] show ?thesis
    proof (elim disjE conjE exE)
      assume "tables s' = tables s"
      then show ?thesis using assms balances_consistent_tables by blast
    next
      assume "s' = s"
      then show ?thesis using assms by simp
    next
      fix a p c m cust row
      assume row: "row = \<lparr>sales_id = sales_id_seq s + 1, sales_agent_id = a,
            sales_customer_id = cust, sales_sale_price = p, sales_commission_percent = c,
            sales_commission_amount = m, sales_note = text_or_null (body_note req),
            sales_created_at = now\<rparr>"
        and s': "s' = add_balance m a
            (s\<lparr>sales_id_seq := sales_id_seq s + 1, sales := sales s @ [row]\<rparr>)"
      have "sales_agent_id row = a" "sales_commission_amount row = m" by (simp_all add: row)
      then show ?thesis unfolding s' using assms by (rule credit_keeps_consistent [rotated])
    qed
  qed
  then show ?thesis by (simp add: p)
qed

lemma post_api_payouts_consistent:
  assumes "balances_consistent s"
  shows "balances_consistent (snd (post_api_payouts req now s))"
proof -
  obtain r s' where p: "post_api_payouts req now s = (r, s')"
    by (cases "post_api_payouts req now s") auto
  from post_api_payouts_outcome [OF p] have "balances_consistent s'"
  proof
    assume "status r = 400 \<and> s' = s" then show ?thesis using assms by simp
  next
    assume "\<exists>aId amt. isFinite amt \<and> \<not> js_less_eq amt (Fin 0)
             \<and> payout_transaction aId amt (text_or_null (body_note req)) now s = (r, s')"
    then obtain aId amt where
      "payout_transaction aId amt (text_or_null (body_note req)) now s = (r, s')" by blast
    from payout_transaction_outcome [OF this] show ?thesis
    proof (elim disjE conjE exE)
      assume "tables s' = tables s"
      then show ?thesis using assms balances_consistent_tables by blast
    next
      assume "s' = s"
      then show ?thesis using assms by simp
    next
      assume "s' = s"
      then show ?thesis using assms by simp
    next
      fix a m row
      assume row: "row = \<lparr>payouts_id = payouts_id_seq s + 1, payouts_agent_id = a,
            payouts_amount = m, payouts_note = text_or_null (body_note req),
            payouts_created_at = now\<rparr>"
        and s': "s' = add_balance (- m) a
            (s\<lparr>payouts_id_seq := payouts_id_seq s + 1, payouts := payouts s @ [row]\<rparr>)"
      have "payouts_agent_id row = a" "payouts_amount row = m" by (simp_all add: row)
      then show ?thesis unfolding s' using assms by (rule debit_keeps_consistent [rotated])
    qed
  qed
  then show ?thesis by (simp add: p)
qed

lemma run_part003_consistent:
  "balances_consistent s \<Longrightarrow> balances_consistent (run_part003 s calls)"
proof (induction calls arbitrary: s)
  case Nil
  then show ?case by simp
next
  case (Cons c calls)
  then show ?case
    by (cases c) (simp_all add: post_api_sales_consistent post_api_payouts_consistent)
qed

lemma report_outcome:
  assumes "get_api_agents_id_report req s = (Response 200 (Ok_report a st ct pt ss ps), s')"
  shows "a \<in> set (agents s) \<and> st = sale_price_sum s (agents_id a)
       \<and> ct = commission_sum s (agents_id a) \<and> pt = payout_sum s (agents_id a)
       \<and> ss = map (\<lambda>r. (r, customer_name_of s (sales_customer_id r)))
                (take 200 (order_desc sales_created_at
                   (filter (\<lambda>r. sales_agent_id r = agents_id a) (sales s))))
       \<and> ps = take 200 (order_desc payouts_created_at
                   (filter (\<lambda>r. payouts_agent_id r = agents_id a) (payouts s)))
       \<and> s' = s"
proof -
  let ?n = "string_to_number (param_id req)"
  have fin: "isFinite ?n"
  proof (rule ccontr)
    assume "\<not> isFinite ?n"
    then have "get_api_agents_id_report req s = (Response 400 (Error ''invalid agent id''), s)"
      by (simp add: get_api_agents_id_report_def)
    with assms show False by simp
  qed
  obtain rows where rows: "select_agent ?n s = Some rows"
  proof (cases "select_agent ?n s")
    case None
    then have "get_api_agents_id_report req s = (server_error, s)"
      using fin by (simp add: get_api_agents_id_report_def)
    with assms show ?thesis by (simp add: server_error_def)
  next
    case (Some rows)
    then show ?thesis using that by blast
  qed
  have ne: "rows \<noteq> []"
  proof
    assume "rows = []"
    then have "get_api_agents_id_report req s = (Response 404 (Error ''agent not found''), s)"
      using fin rows by (simp add: get_api_agents_id_report_def)
    with assms show False by simp
  qed
  from rows obtain i where "rows = filter (\<lambda>x. agents_id x = i) (agents s)"
    by (auto simp: select_agent_def split: option.splits)
  then have "hd rows \<in> set (agents s)"
    using ne hd_in_set [of rows] by auto
  moreover have "get_api_agents_id_report req s =
      (Response 200
         (Ok_report (hd rows) (sale_price_sum s (agents_id (hd rows)))
            (commission_sum s (agents_id (hd rows))) (payout_sum s (agents_id (hd rows)))
            (map (\<lambda>r. (r, customer_name_of s (sales_customer_id r)))
               (take 200 (order_desc sales_created_at
                  (filter (\<lambda>r. sales_agent_id r = agents_id (hd rows)) (sales s)))))
            (take 200 (order_desc payouts_created_at
               (filter (\<lambda>r. payouts_agent_id r = agents_id (hd rows)) (payouts s))))), s)"
    using fin rows ne by (simp add: get_api_agents_id_report_def Let_def)
  ultimately show ?thesis using assms by simp
qed

lemma agentTotals_rows:
  assumes "agentTotals aId s = Some rows" and "t \<in> set rows"
  shows "\<exists>a \<in> set (agents s). t = totals_of s a"
  using assms
  by (auto simp: agentTotals_def Let_def split: option.splits if_splits)

text \<open>
  C1. In part\_003 the balance column of every agent equals the sum of the commission
  amounts of its sale rows minus the sum of the amounts of its payout rows after every
  sequence of \<open>POST /api/sales\<close> and \<open>POST /api/payouts\<close> calls, when it did before; the
  report returns that balance and these two sums. In src/index.js the balance that
  \<open>agentTotals\<close> reports is this difference by construction, after every sequence of calls.
\<close>
theorem balance_is_ledger_sum:
  assumes "balances_consistent s"
  shows "balances_consistent (run_part003 s calls)
     \<and> (get_api_agents_id_report req (run_part003 s calls)
           = (Response 200 (Ok_report a st ct pt ss ps), s') \<longrightarrow>
         ct = commission_sum (run_part003 s calls) (agents_id a)
         \<and> pt = payout_sum (run_part003 s calls) (agents_id a)
         \<and> agents_balance a = ct - pt)
     \<and> (agentTotals aId (run_index s0 calls') = Some rows \<longrightarrow>
         (\<forall>t \<in> set rows.
            balance t = commission_sum (run_index s0 calls') (totals_id t)
                        - payout_sum (run_index s0 calls') (totals_id t)))"
proof -
  have c: "balances_consistent (run_part003 s calls)"
    using assms by (rule run_part003_consistent)
  have r: "get_api_agents_id_report req (run_part003 s calls)
           = (Response 200 (Ok_report a st ct pt ss ps), s') \<longrightarrow>
         ct = commission_sum (run_part003 s calls) (agents_id a)
         \<and> pt = payout_sum (run_part003 s calls) (agents_id a)
         \<and> agents_balance a = ct - pt"
    using c report_outcome [of req "run_part003 s calls" a st ct pt ss ps s']
    by (auto simp: balances_consistent_iff)
  have t: "agentTotals aId (run_index s0 calls') = Some rows \<longrightarrow>
         (\<forall>t \<in> set rows.
            balance t = commission_sum (run_index s0 calls') (totals_id t)
                        - payout_sum (run_index s0 calls') (totals_id t))"
  proof (intro impI ballI)
    fix t assume "agentTotals aId (run_index s0 calls') = Some rows" and "t \<in> set rows"
    then obtain a where "t = totals_of (run_index s0 calls') a"
      using agentTotals_rows by blast
    then show "balance t = commission_sum (run_index s0 calls') (totals_id t)
                        - payout_sum (run_index s0 calls') (totals_id t)"
      by (simp add: totals_of_def)
  qed
  show ?thesis using c r t by blast
qed

text \<open>
  A run of the theorem on the scenario, in part\_003 and, with a customer and the payout
  route of src/index.js, there.
\<close>
theorem balance_is_ledger_sum_witness:
  "balances_consistent (one_agent 10 0)
   \<and> run_part003 (one_agent 10 0)
        [RecordSale (sale_of (JNum (Fin 1)) JUndefined (JNum (Fin 200))) 2,
         RecordPayout (payout_of (JNum (Fin 1)) (JNum (Fin 25))) 3,
         RecordPayout (payout_of (JNum (Fin 1)) (JNum (Fin 20))) 4] = ledger_0
   \<and> balances_consistent ledger_0
   \<and> agents_balance (agent_A 10 0) = 20 - 20
   \<and> map balance (the (agentTotals None (run_index (one_agent 10 0)
        [RecordSale (sale_of (JNum (Fin 1)) (JNum (Fin 1)) (JNum (Fin 200))) 2,
         RecordPayout (payout_at ''1'' (JNum (Fin 20))) 3]))) = [20 - 20]"
proof -
  let ?calls = "[RecordSale (sale_of (JNum (Fin 1)) JUndefined (JNum (Fin 200))) 2,
         RecordPayout (payout_of (JNum (Fin 1)) (JNum (Fin 25))) 3,
         RecordPayout (payout_of (JNum (Fin 1)) (JNum (Fin 20))) 4]"
  let ?calls' = "[RecordSale (sale_of (JNum (Fin 1)) (JNum (Fin 1)) (JNum (Fin 200))) 2,
         RecordPayout (payout_at ''1'' (JNum (Fin 20))) 3]"
  have start: "balances_consistent (one_agent 10 0)"
    by (simp add: balances_consistent_def one_agent_def agent_A_def commission_sum_def
        payout_sum_def)
  have run: "run_part003 (one_agent 10 0) ?calls = ledger_0"
    by (simp add: sale_200 payout_25 payout_20)
  have totals: "agentTotals None (run_index (one_agent 10 0) ?calls')
      = Some [\<lparr>totals_id = 1, totals_name = ''A'', totals_phone = None,
                totals_commission_percent = 10, earned = 20, paid = 20, balance = 0\<rparr>]"
    unfolding index_run by (simp add: handler_defs)
  note inst = balance_is_ledger_sum [OF start, of ?calls "no_fields\<lparr>param_id := ''1''\<rparr>"
      "agent_A 10 0" 200 20 20 _ _ ledger_0 None "one_agent 10 0" ?calls' 
      "[\<lparr>totals_id = 1, totals_name = ''A'', totals_phone = None,
                totals_commission_percent = 10, earned = 20, paid = 20, balance = 0\<rparr>]"]
  show ?thesis
    using inst start run totals report_ledger_0 by simp
qed

section \<open>Successful sales\<close>

lemma numeric_param_finite: "isFinite x \<Longrightarrow> \<exists>m. numeric_param x = Some m"
  by (cases x) (simp_all add: isFinite_def numeric_param_def)

lemma finite_commission_percent:
  assumes "isFinite (js_div100 (js_mul price pct))" and "isFinite price"
  shows "isFinite pct"
proof -
  from assms(2) obtain p where p: "price = Fin p" by (cases price) (simp_all add: isFinite_def)
  show ?thesis using assms(1) unfolding p
    by (cases pct) (simp_all add: isFinite_def split: if_splits)
qed

lemma insert_sale_success:
  assumes "int4_param aId = Some a" and "has_agent s a"
    and "numeric_param price = Some p" and "numeric_param pct = Some c"
    and "numeric_param amt = Some m"
    and "customer_param cId = Some cust" and "customer_ok s cust"
  shows "insert_sale aId cId price pct amt note now s =
           (s\<lparr>sales_id_seq := sales_id_seq s + 1,
              sales := sales s @
                [\<lparr>sales_id = sales_id_seq s + 1, sales_agent_id = a, sales_customer_id = cust,
                  sales_sale_price = p, sales_commission_percent = c,
                  sales_commission_amount = m, sales_note = note, sales_created_at = now\<rparr>]\<rparr>,
            Some (sales_id_seq s + 1))"
  using assms by (simp add: insert_sale_def Let_def)

lemma sale_transaction_success:
  assumes a: "int4_param aId = Some a" and h: "has_agent s a"
    and price: "isFinite price"
    and pct: "pct = or_zero (fl (agents_commission_percent (agent_by_id s a)))"
    and amt: "amt = js_div100 (js_mul price pct)" and fin: "isFinite amt"
    and cust: "customer_param (case cId of None \<Rightarrow> None
                    | Some x \<Rightarrow> if isFinite x then Some x else None) = Some cust"
    and ok: "customer_ok s cust"
  shows "\<exists>p c m. numeric_param price = Some p \<and> numeric_param pct = Some c
           \<and> numeric_param amt = Some m
           \<and> sale_transaction aId cId price note now s =
               (Response 200 (Ok_sale (sales_id_seq s + 1) pct amt),
                add_balance m a
                  (s\<lparr>sales_id_seq := sales_id_seq s + 1,
                     sales := sales s @
                       [\<lparr>sales_id = sales_id_seq s + 1, sales_agent_id = a,
                         sales_customer_id = cust, sales_sale_price = p,
                         sales_commission_percent = c, sales_commission_amount = m,
                         sales_note = note, sales_created_at = now\<rparr>]\<rparr>))"
proof -
  from select_agent_known [OF a h] obtain rows where
    rows: "select_agent aId s = Some rows" "rows \<noteq> []" "hd rows = agent_by_id s a" by blast
  have "isFinite pct" using finite_commission_percent fin price amt by blast
  then obtain c where c: "numeric_param pct = Some c" using numeric_param_finite by blast
  obtain p where p: "numeric_param price = Some p" using numeric_param_finite price by blast
  obtain m where m: "numeric_param amt = Some m" using numeric_param_finite fin by blast
  let ?s1 = "s\<lparr>sales_id_seq := sales_id_seq s + 1,
                 sales := sales s @
                   [\<lparr>sales_id = sales_id_seq s + 1, sales_agent_id = a,
                     sales_customer_id = cust, sales_sale_price = p,
                     sales_commission_percent = c, sales_commission_amount = m,
                     sales_note = note, sales_created_at = now\<rparr>]\<rparr>"
  have ins: "insert_sale aId (case cId of None \<Rightarrow> None
                    | Some x \<Rightarrow> if isFinite x then Some x else None) price pct amt note now s
        = (?s1, Some (sales_id_seq s + 1))"
    by (rule insert_sale_success [OF a h p c m cust ok])
  have cr: "credit_agent amt aId ?s1 = Some (add_balance m a ?s1)"
    by (simp add: credit_agent_def m a)
  have "sale_transaction aId cId price note now s =
          (Response 200 (Ok_sale (sales_id_seq s + 1) pct amt), add_balance m a ?s1)"
    using rows ins cr pct amt by (simp add: sale_transaction_def Let_def)
  then show ?thesis using p c m by blast
qed


lemma fl_not_NaN: "fl x \<noteq> NaN"
  by (simp add: fl_def Let_def split: prod.splits option.splits)

lemma or_zero_fl: "or_zero (fl x) = fl x"
  by (simp add: or_zero_def falsy_num_def fl_not_NaN)

lemma positive_not_nullish:
  "isFinite (Number v) \<Longrightarrow> \<not> js_less_eq (Number v) (Fin 0) \<Longrightarrow> \<not> nullish v"
  by (auto simp: nullish_def Number_def isFinite_def js_less_eq_def)

lemma positive_not_falsy:
  "isFinite x \<Longrightarrow> \<not> js_less_eq x (Fin 0) \<Longrightarrow> \<not> falsy_num x"
  by (auto simp: falsy_num_def isFinite_def js_less_eq_def)

lemma post_api_sales_success:
  assumes a: "int4_param (Number (agentId req)) = Some a" and h: "has_agent s a"
    and price: "price = Number (salePrice req)" "isFinite price" "\<not> js_less_eq price (Fin 0)"
    and pct: "pct = fl (agents_commission_percent (agent_by_id s a))"
    and amt: "amt = js_div100 (js_mul price pct)" "isFinite amt"
    and cust: "nullish (customerId req) \<and> cust = None
               \<or> \<not> nullish (customerId req) \<and> int4_param (Number (customerId req)) = Some k
                 \<and> has_customer s k \<and> cust = Some k"
  shows "\<exists>p c m. numeric_param price = Some p \<and> numeric_param pct = Some c
           \<and> numeric_param amt = Some m
           \<and> post_api_sales req now s =
               (Response 200 (Ok_sale (sales_id_seq s + 1) pct amt),
                add_balance m a
                  (s\<lparr>sales_id_seq := sales_id_seq s + 1,
                     sales := sales s @
                       [\<lparr>sales_id = sales_id_seq s + 1, sales_agent_id = a,
                         sales_customer_id = cust, sales_sale_price = p,
                         sales_commission_percent = c, sales_commission_amount = m,
                         sales_note = text_or_null (body_note req), sales_created_at = now\<rparr>]\<rparr>))"
proof -
  let ?cId = "if nullish (customerId req) then None else Some (Number (customerId req))"
  have nn: "\<not> nullish (salePrice req)"
    using price positive_not_nullish by blast
  have fa: "isFinite (Number (agentId req))" using a by (rule int4_param_finite)
  have c1: "customer_param (case ?cId of None \<Rightarrow> None
                    | Some x \<Rightarrow> if isFinite x then Some x else None) = Some cust"
    using cust by (auto simp: customer_param_def int4_param_finite)
  have c2: "customer_ok s cust" using cust by (auto simp: customer_ok_def)
  have pct': "pct = or_zero (fl (agents_commission_percent (agent_by_id s a)))"
    by (simp add: pct or_zero_fl)
  from sale_transaction_success [OF a h price(2) pct' amt c1 c2,
      of "text_or_null (body_note req)" now]
  obtain p c m where "numeric_param price = Some p" "numeric_param pct = Some c"
    "numeric_param amt = Some m"
    "sale_transaction (Number (agentId req)) ?cId price (text_or_null (body_note req)) now s =
       (Response 200 (Ok_sale (sales_id_seq s + 1) pct amt),
        add_balance m a
          (s\<lparr>sales_id_seq := sales_id_seq s + 1,
             sales := sales s @
               [\<lparr>sales_id = sales_id_seq s + 1, sales_agent_id = a,
                 sales_customer_id = cust, sales_sale_price = p,
                 sales_commission_percent = c, sales_commission_amount = m,
                 sales_note = text_or_null (body_note req), sales_created_at = now\<rparr>]\<rparr>))"
    by blast
  moreover have "post_api_sales req now s =
      sale_transaction (Number (agentId req)) ?cId price (text_or_null (body_note req)) now s"
    using nn fa price by (simp add: post_api_sales_def Let_def)
  ultimately show ?thesis by auto
qed

lemma post_api_sales_index_success:
  assumes a: "int4_param (Number (agentId req)) = Some a" "a \<noteq> 0" and h: "has_agent s a"
    and price: "price = Number (salePrice req)" "isFinite price" "\<not> js_less_eq price (Fin 0)"
    and pct: "pct = fl (agents_commission_percent (agent_by_id s a))"
    and amt: "amt = js_div100 (js_mul price pct)" "isFinite amt"
    and cust: "int4_param (Number (customerId req)) = Some k" "k \<noteq> 0" "has_customer s k"
  shows "\<exists>p c m. numeric_param price = Some p \<and> numeric_param pct = Some c
           \<and> numeric_param amt = Some m
           \<and> post_api_sales_index req now s =
               (Response 200 (Ok_sale (sales_id_seq s + 1) pct amt),
                s\<lparr>sales_id_seq := sales_id_seq s + 1,
                  sales := sales s @
                    [\<lparr>sales_id = sales_id_seq s + 1, sales_agent_id = a,
                      sales_customer_id = Some k, sales_sale_price = p,
                      sales_commission_percent = c, sales_commission_amount = m,
                      sales_note = None, sales_created_at = now\<rparr>]\<rparr>)"
proof -
  from select_agent_known [OF a(1) h] obtain rows where
    rows: "select_agent (Number (agentId req)) s = Some rows" "rows \<noteq> []"
      "hd rows = agent_by_id s a" by blast
  have "isFinite pct" using finite_commission_percent amt price by blast
  then obtain c where c: "numeric_param pct = Some c" using numeric_param_finite by blast
  obtain p where p: "numeric_param price = Some p" using numeric_param_finite price by blast
  obtain m where m: "numeric_param amt = Some m" using numeric_param_finite amt by blast
  have t1: "\<not> falsy_num (Number (customerId req))"
    using cust(1,2) by (auto simp: falsy_num_def int4_param_def split: prod.splits if_splits)
  have t2: "\<not> falsy_num (Number (agentId req))"
    using a by (auto simp: falsy_num_def int4_param_def split: prod.splits if_splits)
  have t3: "\<not> falsy_num price" using price positive_not_falsy by blast
  have c1: "customer_param (Some (Number (customerId req))) = Some (Some k)"
    using cust by (simp add: customer_param_def)
  have c2: "customer_ok s (Some k)" using cust by (simp add: customer_ok_def)
  have ins: "insert_sale (Number (agentId req)) (Some (Number (customerId req))) price pct amt
      None now s
        = (s\<lparr>sales_id_seq := sales_id_seq s + 1,
              sales := sales s @
                [\<lparr>sales_id = sales_id_seq s + 1, sales_agent_id = a,
                  sales_customer_id = Some k, sales_sale_price = p,
                  sales_commission_percent = c, sales_commission_amount = m,
                  sales_note = None, sales_created_at = now\<rparr>]\<rparr>, Some (sales_id_seq s + 1))"
    by (rule insert_sale_success [OF a(1) h p c m c1 c2])
  have "post_api_sales_index req now s =
      (Response 200 (Ok_sale (sales_id_seq s + 1) pct amt),
        s\<lparr>sales_id_seq := sales_id_seq s + 1,
          sales := sales s @
            [\<lparr>sales_id = sales_id_seq s + 1, sales_agent_id = a,
              sales_customer_id = Some k, sales_sale_price = p,
              sales_commission_percent = c, sales_commission_amount = m,
              sales_note = None, sales_created_at = now\<rparr>]\<rparr>)"
    using t1 t2 t3 price rows ins pct amt
    by (simp add: post_api_sales_index_def Let_def)
  then show ?thesis using p c m by blast
qed

lemma int4_param_not_nullish:
  "int4_param (Number v) = Some k \<Longrightarrow> k \<noteq> 0 \<Longrightarrow> \<not> nullish v"
  by (auto simp: nullish_def Number_def int4_param_def)

lemma commission_sum_append:
  "sales s' = sales s @ [row] \<Longrightarrow>
   commission_sum s' a = commission_sum s a
      + (if sales_agent_id row = a then sales_commission_amount row else 0)"
  by (simp add: commission_sum_def)

text \<open>
  C3, as amended. Take a sale with an existing agent, a \<open>customerId\<close> that is absent (or
  \<open>null\<close>) or names an existing customer, and a positive price \<open>pv\<close>; let the agent's
  stored percent read as the finite number \<open>cv\<close>, and let the commission, the binary64
  result \<open>v\<close> of \<open>(pv * cv) / 100\<close>, rounded after the multiplication and after the
  division, be finite. Then the commission percent returned is \<open>cv\<close> and the commission
  amount returned is \<open>v\<close>. The sale row stores the decimal texts of these numbers, and the
  balance grows by exactly the stored amount: in part\_003 the balance column, in
  src/index.js (which wants a customer, and ids other than 0) the balance that
  \<open>agentTotals\<close> computes. When neither operation rounds, \<open>v\<close> is \<open>pv * cv / 100\<close>.
\<close>
theorem sale_commission_is_binary64:
  assumes "int4_param (Number (agentId req)) = Some a" and "has_agent s a"
    and "nullish (customerId req) \<and> cust = None
         \<or> \<not> nullish (customerId req) \<and> int4_param (Number (customerId req)) = Some k
           \<and> has_customer s k \<and> cust = Some k"
    and "Number (salePrice req) = Fin pv" and "0 < pv"
    and "fl (agents_commission_percent (agent_by_id s a)) = Fin cv"
    and "js_div100 (js_mul (Fin pv) (Fin cv)) = Fin v"
  shows "post_api_sales req now s =
           (Response 200 (Ok_sale (sales_id_seq s + 1) (Fin cv) (Fin v)),
            add_balance (to_decimal v) a
              (s\<lparr>sales_id_seq := sales_id_seq s + 1,
                 sales := sales s @
                   [\<lparr>sales_id = sales_id_seq s + 1, sales_agent_id = a,
                     sales_customer_id = cust, sales_sale_price = to_decimal pv,
                     sales_commission_percent = to_decimal cv,
                     sales_commission_amount = to_decimal v,
                     sales_note = text_or_null (body_note req), sales_created_at = now\<rparr>]\<rparr>))
     \<and> (a \<noteq> 0 \<and> k \<noteq> 0 \<and> cust = Some k \<longrightarrow>
          post_api_sales_index req now s =
           (Response 200 (Ok_sale (sales_id_seq s + 1) (Fin cv) (Fin v)),
            s\<lparr>sales_id_seq := sales_id_seq s + 1,
              sales := sales s @
                [\<lparr>sales_id = sales_id_seq s + 1, sales_agent_id = a,
                  sales_customer_id = Some k, sales_sale_price = to_decimal pv,
                  sales_commission_percent = to_decimal cv,
                  sales_commission_amount = to_decimal v,
                  sales_note = None, sales_created_at = now\<rparr>]\<rparr>)
          \<and> commission_sum (snd (post_api_sales_index req now s)) a
               - payout_sum (snd (post_api_sales_index req now s)) a
             = commission_sum s a - payout_sum s a + to_decimal v)
     \<and> Fin v = js_div100 (fl (pv * cv))
     \<and> (fl (pv * cv) = Fin (pv * cv) \<and> fl (pv * cv / 100) = Fin (pv * cv / 100) \<longrightarrow>
          v = pv * cv / 100)"
proof -
  have fin: "isFinite (Fin pv)" "isFinite (js_div100 (js_mul (Fin pv) (Fin cv)))"
    unfolding assms(7) by (simp_all add: isFinite_def)
  have v': "js_div100 (fl (pv * cv)) = Fin v" using assms(7) by simp
  have pos: "\<not> js_less_eq (Fin pv) (Fin 0)" using assms(5) by (simp add: js_less_eq_Fin)
  from post_api_sales_success [OF assms(1,2) assms(4) [symmetric] fin(1) pos
      assms(6) [symmetric] refl fin(2) assms(3), of now]
  have one: "post_api_sales req now s =
           (Response 200 (Ok_sale (sales_id_seq s + 1) (Fin cv) (Fin v)),
            add_balance (to_decimal v) a
              (s\<lparr>sales_id_seq := sales_id_seq s + 1,
                 sales := sales s @
                   [\<lparr>sales_id = sales_id_seq s + 1, sales_agent_id = a,
                     sales_customer_id = cust, sales_sale_price = to_decimal pv,
                     sales_commission_percent = to_decimal cv,
                     sales_commission_amount = to_decimal v,
                     sales_note = text_or_null (body_note req), sales_created_at = now\<rparr>]\<rparr>))"
    by (auto simp: numeric_param_Fin v')
  have two: "a \<noteq> 0 \<and> k \<noteq> 0 \<and> cust = Some k \<longrightarrow>
          post_api_sales_index req now s =
           (Response 200 (Ok_sale (sales_id_seq s + 1) (Fin cv) (Fin v)),
            s\<lparr>sales_id_seq := sales_id_seq s + 1,
              sales := sales s @
                [\<lparr>sales_id = sales_id_seq s + 1, sales_agent_id = a,
                  sales_customer_id = Some k, sales_sale_price = to_decimal pv,
                  sales_commission_percent = to_decimal cv,
                  sales_commission_amount = to_decimal v,
                  sales_note = None, sales_created_at = now\<rparr>]\<rparr>)
          \<and> commission_sum (snd (post_api_sales_index req now s)) a
               - payout_sum (snd (post_api_sales_index req now s)) a
             = commission_sum s a - payout_sum s a + to_decimal v"
  proof (intro impI, elim conjE)
    assume a0: "a \<noteq> 0" and k0: "k \<noteq> 0" and c: "cust = Some k"
    from assms(3) c have ck: "int4_param (Number (customerId req)) = Some k" "has_customer s k"
      by auto
    from post_api_sales_index_success [OF assms(1) a0 assms(2) assms(4) [symmetric] fin(1) pos
        assms(6) [symmetric] refl fin(2) ck(1) k0 ck(2), of now]
    have i: "post_api_sales_index req now s =
           (Response 200 (Ok_sale (sales_id_seq s + 1) (Fin cv) (Fin v)),
            s\<lparr>sales_id_seq := sales_id_seq s + 1,
              sales := sales s @
                [\<lparr>sales_id = sales_id_seq s + 1, sales_agent_id = a,
                  sales_customer_id = Some k, sales_sale_price = to_decimal pv,
                  sales_commission_percent = to_decimal cv,
                  sales_commission_amount = to_decimal v,
                  sales_note = None, sales_created_at = now\<rparr>]\<rparr>)"
      by (auto simp: numeric_param_Fin v')
    have "commission_sum (snd (post_api_sales_index req now s)) a
               - payout_sum (snd (post_api_sales_index req now s)) a
             = commission_sum s a - payout_sum s a + to_decimal v"
      unfolding i by (simp add: commission_sum_def payout_sum_def)
    with i show "post_api_sales_index req now s =
           (Response 200 (Ok_sale (sales_id_seq s + 1) (Fin cv) (Fin v)),
            s\<lparr>sales_id_seq := sales_id_seq s + 1,
              sales := sales s @
                [\<lparr>sales_id = sales_id_seq s + 1, sales_agent_id = a,
                  sales_customer_id = Some k, sales_sale_price = to_decimal pv,
                  sales_commission_percent = to_decimal cv,
                  sales_commission_amount = to_decimal v,
                  sales_note = None, sales_created_at = now\<rparr>]\<rparr>)
          \<and> commission_sum (snd (post_api_sales_index req now s)) a
               - payout_sum (snd (post_api_sales_index req now s)) a
             = commission_sum s a - payout_sum s a + to_decimal v"
      by blast
  qed
  have four: "Fin v = js_div100 (fl (pv * cv))" using v' by simp
  have five: "fl (pv * cv) = Fin (pv * cv) \<and> fl (pv * cv / 100) = Fin (pv * cv / 100) \<longrightarrow>
          v = pv * cv / 100"
    using v' by auto
  show ?thesis using one two four five by blast
qed

text \<open>
  Runs of the theorem: agent 1 at 10 percent sells at a price of 200, to customer 1 and
  without a customer. The commission is 20; part\_003 adds it to the balance column,
  src/index.js leaves the column at 0 and reports the balance from the rows.
\<close>
theorem sale_commission_is_binary64_witness:
  "int4_param (Number (agentId (sale_of (JNum (Fin 1)) (JNum (Fin 1)) (JNum (Fin 200))))) = Some 1
   \<and> has_agent (one_agent 10 0) 1
   \<and> has_customer (one_agent 10 0) 1
   \<and> fl (agents_commission_percent (agent_by_id (one_agent 10 0) 1)) = Fin 10
   \<and> js_div100 (js_mul (Fin 200) (Fin 10)) = Fin 20
   \<and> post_api_sales (sale_of (JNum (Fin 1)) (JNum (Fin 1)) (JNum (Fin 200))) 2 (one_agent 10 0)
     = (Response 200 (Ok_sale 1 (Fin 10) (Fin 20)), ledger 20 [sale_A 1 (Some 1) 200 20 2] [])
   \<and> post_api_sales_index (sale_of (JNum (Fin 1)) (JNum (Fin 1)) (JNum (Fin 200))) 2
        (one_agent 10 0)
     = (Response 200 (Ok_sale 1 (Fin 10) (Fin 20)), ledger 0 [sale_A 1 (Some 1) 200 20 2] [])
   \<and> nullish (customerId (sale_of (JNum (Fin 1)) JUndefined (JNum (Fin 200))))
   \<and> post_api_sales (sale_of (JNum (Fin 1)) JUndefined (JNum (Fin 200))) 2 (one_agent 10 0)
     = (Response 200 (Ok_sale 1 (Fin 10) (Fin 20)), ledger 20 [sale_A 1 None 200 20 2] [])"
proof -
  let ?r = "sale_of (JNum (Fin 1)) (JNum (Fin 1)) (JNum (Fin 200))"
  let ?q = "sale_of (JNum (Fin 1)) JUndefined (JNum (Fin 200))"
  have h1: "int4_param (Number (agentId ?r)) = Some 1" "int4_param (Number (agentId ?q)) = Some 1"
    by (simp_all add: sale_of_def no_fields_def Number_def int4_param_1)
  have h2: "has_agent (one_agent 10 0) 1"
    by (simp add: has_agent_def one_agent_def agent_A_def)
  have h6: "has_customer (one_agent 10 0) 1"
    by (simp add: has_customer_def one_agent_def customer_C_def)
  have h3: "nullish (customerId ?r) \<and> Some (1 :: int) = None
         \<or> \<not> nullish (customerId ?r) \<and> int4_param (Number (customerId ?r)) = Some 1
           \<and> has_customer (one_agent 10 0) 1 \<and> Some (1 :: int) = Some 1"
    using h6 by (simp add: sale_of_def no_fields_def Number_def nullish_def int4_param_1)
  have n: "nullish (customerId ?q)"
    by (simp add: sale_of_def no_fields_def nullish_def)
  then have h3': "nullish (customerId ?q) \<and> (None :: int option) = None
         \<or> \<not> nullish (customerId ?q) \<and> int4_param (Number (customerId ?q)) = Some 0
           \<and> has_customer (one_agent 10 0) 0 \<and> (None :: int option) = Some 0"
    by simp
  have h4: "Number (salePrice ?r) = Fin 200" "Number (salePrice ?q) = Fin 200"
    by (simp_all add: sale_of_def no_fields_def Number_def)
  have h5: "(0 :: rat) < 200" by simp
  have h9: "fl (agents_commission_percent (agent_by_id (one_agent 10 0) 1)) = Fin 10"
    by (simp add: agent_by_id_def one_agent_def agent_A_def fl_10)
  have h10: "js_div100 (js_mul (Fin 200) (Fin 10)) = Fin 20"
    by (simp add: fl_2000 fl_20)
  note inst = sale_commission_is_binary64 [OF h1(1) h2 h3 h4(1) h5 h9 h10, of 2]
  note inst' = sale_commission_is_binary64 [OF h1(2) h2 h3' h4(2) h5 h9 h10, of 2]
  have "post_api_sales ?r 2 (one_agent 10 0)
     = (Response 200 (Ok_sale 1 (Fin 10) (Fin 20)), ledger 20 [sale_A 1 (Some 1) 200 20 2] [])"
    using inst
    by (simp add: one_agent_def ledger_def sale_A_def agent_A_def add_balance_def
        sale_of_def no_fields_def text_or_null_def to_decimal_10 to_decimal_20 to_decimal_200)
  moreover have "post_api_sales_index ?r 2 (one_agent 10 0)
     = (Response 200 (Ok_sale 1 (Fin 10) (Fin 20)), ledger 0 [sale_A 1 (Some 1) 200 20 2] [])"
    using inst
    by (simp add: one_agent_def ledger_def sale_A_def agent_A_def
        to_decimal_10 to_decimal_20 to_decimal_200)
  moreover have "post_api_sales ?q 2 (one_agent 10 0)
     = (Response 200 (Ok_sale 1 (Fin 10) (Fin 20)), ledger 20 [sale_A 1 None 200 20 2] [])"
    using inst'
    by (simp add: one_agent_def ledger_def sale_A_def agent_A_def add_balance_def
        sale_of_def no_fields_def text_or_null_def to_decimal_10 to_decimal_20 to_decimal_200)
  ultimately show ?thesis using h1 h2 h6 h9 h10 n by simp
qed

text \<open>
  C9, as amended. In part\_003 a sale without \<open>customerId\<close> (absent or \<open>null\<close>), with an
  existing agent, a positive price, and a stored percent and a commission that are finite
  binary64 numbers, is recorded, and the sale row has no customer. In src/index.js a sale
  without \<open>customerId\<close> is answered 400, \<open>customerId required\<close>, and the store is left as it
  was.
\<close>
theorem sale_without_customer:
  assumes "nullish (customerId req)"
    and "int4_param (Number (agentId req)) = Some a" and "has_agent s a"
    and "Number (salePrice req) = Fin pv" and "0 < pv"
    and "fl (agents_commission_percent (agent_by_id s a)) = Fin cv"
    and "js_div100 (js_mul (Fin pv) (Fin cv)) = Fin v"
  shows "post_api_sales req now s =
           (Response 200 (Ok_sale (sales_id_seq s + 1) (Fin cv) (Fin v)),
            add_balance (to_decimal v) a
              (s\<lparr>sales_id_seq := sales_id_seq s + 1,
                 sales := sales s @
                   [\<lparr>sales_id = sales_id_seq s + 1, sales_agent_id = a,
                     sales_customer_id = None, sales_sale_price = to_decimal pv,
                     sales_commission_percent = to_decimal cv,
                     sales_commission_amount = to_decimal v,
                     sales_note = text_or_null (body_note req), sales_created_at = now\<rparr>]\<rparr>))
     \<and> post_api_sales_index req now s = (Response 400 (Error ''customerId required''), s)"
proof -
  have fin: "isFinite (Fin pv)" "isFinite (js_div100 (js_mul (Fin pv) (Fin cv)))"
    unfolding assms(7) by (simp_all add: isFinite_def)
  have v': "js_div100 (fl (pv * cv)) = Fin v" using assms(7) by simp
  have pos: "\<not> js_less_eq (Fin pv) (Fin 0)" using assms(5) by (simp add: js_less_eq_Fin)
  have cust: "nullish (customerId req) \<and> None = None
               \<or> \<not> nullish (customerId req) \<and> int4_param (Number (customerId req)) = Some 0
                 \<and> has_customer s 0 \<and> None = Some 0"
    using assms(1) by simp
  from post_api_sales_success [OF assms(2,3) assms(4) [symmetric] fin(1) pos
      assms(6) [symmetric] refl fin(2) cust, of now]
  have one: "post_api_sales req now s =
           (Response 200 (Ok_sale (sales_id_seq s + 1) (Fin cv) (Fin v)),
            add_balance (to_decimal v) a
              (s\<lparr>sales_id_seq := sales_id_seq s + 1,
                 sales := sales s @
                   [\<lparr>sales_id = sales_id_seq s + 1, sales_agent_id = a,
                     sales_customer_id = None, sales_sale_price = to_decimal pv,
                     sales_commission_percent = to_decimal cv,
                     sales_commission_amount = to_decimal v,
                     sales_note = text_or_null (body_note req), sales_created_at = now\<rparr>]\<rparr>))"
    by (auto simp: numeric_param_Fin v')
  have "falsy_num (Number (customerId req))"
    using assms(1) by (auto simp: nullish_def Number_def falsy_num_def)
  then have two: "post_api_sales_index req now s
      = (Response 400 (Error ''customerId required''), s)"
    by (simp add: post_api_sales_index_def)
  show ?thesis using one two by blast
qed

text \<open>
  A run of the theorem: the body \<open>{ agentId: 1, salePrice: 200 }\<close>, which has no
  \<open>customerId\<close>, sent for agent 1 at 10 percent.
\<close>
theorem sale_without_customer_witness:
  "nullish (customerId (sale_of (JNum (Fin 1)) JUndefined (JNum (Fin 200))))
   \<and> has_agent (one_agent 10 0) 1
   \<and> js_div100 (js_mul (Fin 200) (Fin 10)) = Fin 20
   \<and> post_api_sales (sale_of (JNum (Fin 1)) JUndefined (JNum (Fin 200))) 2 (one_agent 10 0)
     = (Response 200 (Ok_sale 1 (Fin 10) (Fin 20)), ledger_20)
   \<and> map sales_customer_id (sales ledger_20) = [None]
   \<and> post_api_sales_index (sale_of (JNum (Fin 1)) JUndefined (JNum (Fin 200))) 2
        (one_agent 10 0)
     = (Response 400 (Error ''customerId required''), one_agent 10 0)"
proof -
  let ?r = "sale_of (JNum (Fin 1)) JUndefined (JNum (Fin 200))"
  have h1: "nullish (customerId ?r)"
    by (simp add: sale_of_def no_fields_def nullish_def)
  have h2: "int4_param (Number (agentId ?r)) = Some 1"
    by (simp add: sale_of_def no_fields_def Number_def int4_param_1)
  have h3: "has_agent (one_agent 10 0) 1"
    by (simp add: has_agent_def one_agent_def agent_A_def)
  have h4: "Number (salePrice ?r) = Fin 200"
    by (simp add: sale_of_def no_fields_def Number_def)
  have h5: "(0 :: rat) < 200" by simp
  have h6: "fl (agents_commission_percent (agent_by_id (one_agent 10 0) 1)) = Fin 10"
    by (simp add: agent_by_id_def one_agent_def agent_A_def fl_10)
  have h7: "js_div100 (js_mul (Fin 200) (Fin 10)) = Fin 20"
    by (simp add: fl_2000 fl_20)
  note inst = sale_without_customer [OF h1 h2 h3 h4 h5 h6 h7, of 2]
  have "post_api_sales ?r 2 (one_agent 10 0)
     = (Response 200 (Ok_sale 1 (Fin 10) (Fin 20)), ledger_20)"
    using inst
    by (simp add: one_agent_def ledger_20_def ledger_def sale_A_def agent_A_def add_balance_def
        sale_of_def no_fields_def text_or_null_def to_decimal_10 to_decimal_20 to_decimal_200)
  moreover have "map sales_customer_id (sales ledger_20) = [None]"
    by (simp add: ledger_20_def ledger_def sale_A_def)
  moreover have "post_api_sales_index ?r 2 (one_agent 10 0)
     = (Response 400 (Error ''customerId required''), one_agent 10 0)"
    using inst by simp
  ultimately show ?thesis using h1 h3 h7 by simp
qed

text \<open>
  C9 as stated fails: in src/index.js a sale for agent 1 at a price of 200
  whose body has no \<open>customerId\<close>, or has \<open>null\<close> there, is answered 400 and no row is
  inserted.
\<close>
theorem index_sale_requires_customer:
  "post_api_sales_index (sale_of (JNum (Fin 1)) JUndefined (JNum (Fin 200))) 2 (one_agent 10 0)
     = (Response 400 (Error ''customerId required''), one_agent 10 0)
   \<and> post_api_sales_index (sale_of (JNum (Fin 1)) JNull (JNum (Fin 200))) 2 (one_agent 10 0)
     = (Response 400 (Error ''customerId required''), one_agent 10 0)
   \<and> has_agent (one_agent 10 0) 1"
  by (simp add: post_api_sales_index_def sale_of_def no_fields_def Number_def falsy_num_simps
      has_agent_def one_agent_def agent_A_def)

section \<open>The numbers of two sales in cents\<close>

text \<open>
  \<open>fl (47 / 100)\<close> is the number that the JSON text \<open>0.47\<close> denotes. At 10 percent its
  commission \<open>(0.47 * 10) / 100\<close> is the number that prints as \<open>0.04699999999999999\<close>, not
  the number nearest to \<open>0.047\<close>. The commission of \<open>9.53\<close> prints as \<open>0.953\<close>. The sum of
  the two texts is \<open>0.99999999999999999\<close>, and the number that this text denotes is 1.
\<close>

lemma price_047:
  "isFinite (fl (47 / 100))" "\<not> js_less_eq (fl (47 / 100)) (Fin 0)"
  "\<not> falsy_num (fl (47 / 100))" "numeric_param (fl (47 / 100)) = Some (47 / 100)"
  by code_simp+

lemma commission_047:
  "js_div100 (js_mul (fl (47 / 100)) (Fin 10)) = fl (4699999999999999 / 100000000000000000)"
  by code_simp

lemma stored_047:
  "numeric_param (fl (4699999999999999 / 100000000000000000))
     = Some (4699999999999999 / 100000000000000000)"
  by code_simp

lemma not_nearest_047:
  "fl (4699999999999999 / 100000000000000000) \<noteq> fl (47 / 1000)"
  by code_simp

lemma price_953:
  "isFinite (fl (953 / 100))" "\<not> js_less_eq (fl (953 / 100)) (Fin 0)"
  "\<not> falsy_num (fl (953 / 100))" "numeric_param (fl (953 / 100)) = Some (953 / 100)"
  by code_simp+

lemma commission_953:
  "js_div100 (js_mul (fl (953 / 100)) (Fin 10)) = fl (953 / 1000)"
  by code_simp

lemma stored_953: "numeric_param (fl (953 / 1000)) = Some (953 / 1000)"
  by code_simp

lemma balance_read_as_1: "fl (99999999999999999 / 100000000000000000) = Fin 1"
  by code_simp

lemmas cent_facts =
  price_047 commission_047 stored_047 price_953 commission_953 stored_953 balance_read_as_1

text \<open>
  C3 as stated fails: agent 1 earns 10 percent. A sale at the price \<open>0.47\<close>
  is answered with the commission amount \<open>0.04699999999999999\<close>; the row stores this
  decimal and the balance grows by it. It is not \<open>0.047\<close>, the exact product, and not the
  binary64 number nearest to it.
\<close>
theorem commission_of_047_is_not_exact:
  "post_api_sales (sale_of (JNum (Fin 1)) JUndefined (JNum (fl (47 / 100)))) 2 (one_agent 10 0)
     = (Response 200 (Ok_sale 1 (Fin 10) (fl (4699999999999999 / 100000000000000000))),
        ledger (4699999999999999 / 100000000000000000)
          [sale_A 1 None (47 / 100) (4699999999999999 / 100000000000000000) 2] [])
   \<and> fl (4699999999999999 / 100000000000000000) \<noteq> fl (47 / 100 * 10 / 100)
   \<and> (4699999999999999 / 100000000000000000 :: rat) \<noteq> 47 / 100 * 10 / 100"
proof -
  have "post_api_sales (sale_of (JNum (Fin 1)) JUndefined (JNum (fl (47 / 100)))) 2 (one_agent 10 0)
     = (Response 200 (Ok_sale 1 (Fin 10) (fl (4699999999999999 / 100000000000000000))),
        ledger (4699999999999999 / 100000000000000000)
          [sale_A 1 None (47 / 100) (4699999999999999 / 100000000000000000) 2] [])"
    by (simp add: handler_defs number_facts cent_facts)
  moreover have "fl (4699999999999999 / 100000000000000000) \<noteq> fl (47 / 100 * 10 / 100)"
    using not_nearest_047 by simp
  ultimately show ?thesis by simp
qed

section \<open>A payout above the balance\<close>

lemma two_sales:
  "run_part003 (one_agent 10 0)
     [RecordSale (sale_of (JNum (Fin 1)) JUndefined (JNum (fl (953 / 100)))) 2,
      RecordSale (sale_of (JNum (Fin 1)) JUndefined (JNum (fl (47 / 100)))) 3] = ledger_099"
  by (simp add: handler_defs number_facts cent_facts ledger_099_def)

lemma two_sales_index:
  "run_index (one_agent 10 0)
     [RecordSale (sale_of (JNum (Fin 1)) (JNum (Fin 1)) (JNum (fl (953 / 100)))) 2,
      RecordSale (sale_of (JNum (Fin 1)) (JNum (Fin 1)) (JNum (fl (47 / 100)))) 3]
   = index_ledger_099"
  by (simp add: handler_defs number_facts cent_facts index_ledger_099_def)

text \<open>
  C2. Agent 1 earns 10 percent. After sales at \<open>9.53\<close> and \<open>0.47\<close> the balance is
  \<open>0.99999999999999999\<close>. The payout handler reads it as the number 1, so a payout of 1,
  which is above the balance, passes \<open>balance < amt\<close> and is answered 200; the payout row
  is inserted and the \<open>UPDATE\<close> subtracts 1 exactly, which leaves the balance at
  \<open>-0.00000000000000001\<close>. The same happens in part\_003, on the balance column, and in
  \<open>POST /api/agents/:id/payouts\<close> of src/index.js, on the balance of \<open>agentTotals\<close>.
\<close>
theorem payout_overdraws_balance:
  "run_part003 (one_agent 10 0)
     [RecordSale (sale_of (JNum (Fin 1)) JUndefined (JNum (fl (953 / 100)))) 2,
      RecordSale (sale_of (JNum (Fin 1)) JUndefined (JNum (fl (47 / 100)))) 3] = ledger_099
   \<and> map agents_balance (agents ledger_099) = [99999999999999999 / 100000000000000000]
   \<and> post_api_payouts (payout_of (JNum (Fin 1)) (JNum (Fin 1))) 4 ledger_099
     = (Response 200 (Ok_id 1),
        ledger (- (1 / 100000000000000000))
          [sale_A 1 None (953 / 100) (953 / 1000) 2,
           sale_A 2 None (47 / 100) (4699999999999999 / 100000000000000000) 3]
          [payout_A 1 1 None 4])
   \<and> run_index (one_agent 10 0)
     [RecordSale (sale_of (JNum (Fin 1)) (JNum (Fin 1)) (JNum (fl (953 / 100)))) 2,
      RecordSale (sale_of (JNum (Fin 1)) (JNum (Fin 1)) (JNum (fl (47 / 100)))) 3]
     = index_ledger_099
   \<and> map balance (the (agentTotals None index_ledger_099))
     = [99999999999999999 / 100000000000000000]
   \<and> fst (post_api_agents_id_payouts (payout_at ''1'' (JNum (Fin 1))) 4 index_ledger_099)
     = Response 200 (Ok_id 1)
   \<and> map balance (the (agentTotals None
        (snd (post_api_agents_id_payouts (payout_at ''1'' (JNum (Fin 1))) 4 index_ledger_099))))
     = [- (1 / 100000000000000000)]"
proof -
  have a: "map agents_balance (agents ledger_099) = [99999999999999999 / 100000000000000000]"
    by (simp add: ledger_099_def ledger_def agent_A_def)
  have b: "post_api_payouts (payout_of (JNum (Fin 1)) (JNum (Fin 1))) 4 ledger_099
     = (Response 200 (Ok_id 1),
        ledger (- (1 / 100000000000000000))
          [sale_A 1 None (953 / 100) (953 / 1000) 2,
           sale_A 2 None (47 / 100) (4699999999999999 / 100000000000000000) 3]
          [payout_A 1 1 None 4])"
    by (simp add: handler_defs number_facts cent_facts ledger_099_def)
  have c: "map balance (the (agentTotals None index_ledger_099))
     = [99999999999999999 / 100000000000000000]"
    by (simp add: handler_defs index_ledger_099_def)
  have d: "post_api_agents_id_payouts (payout_at ''1'' (JNum (Fin 1))) 4 index_ledger_099
     = (Response 200 (Ok_id 1),
        ledger 0
          [sale_A 1 (Some 1) (953 / 100) (953 / 1000) 2,
           sale_A 2 (Some 1) (47 / 100) (4699999999999999 / 100000000000000000) 3]
          [payout_A 1 1 (Some []) 4])"
    by (simp add: handler_defs number_facts cent_facts index_ledger_099_def)
  have e: "map balance (the (agentTotals None
        (snd (post_api_agents_id_payouts (payout_at ''1'' (JNum (Fin 1))) 4 index_ledger_099))))
     = [- (1 / 100000000000000000)]"
    unfolding d by (simp add: handler_defs)
  show ?thesis using two_sales two_sales_index a b c d e by simp
qed

text \<open>
  What the run says of the balance column: before the payout it is below the amount paid
  out, after it it is negative.
\<close>
theorem payout_overdraws_balance_witness:
  "list_all (\<lambda>b. b < 1) (map agents_balance (agents ledger_099))
   \<and> status (fst (post_api_payouts (payout_of (JNum (Fin 1)) (JNum (Fin 1))) 4 ledger_099)) = 200
   \<and> list_all (\<lambda>b. b < 0) (map agents_balance (agents
        (snd (post_api_payouts (payout_of (JNum (Fin 1)) (JNum (Fin 1))) 4 ledger_099))))
   \<and> length (payouts
        (snd (post_api_payouts (payout_of (JNum (Fin 1)) (JNum (Fin 1))) 4 ledger_099))) = 1"
  using payout_overdraws_balance by (simp add: ledger_def agent_A_def)

section \<open>Creating an agent\<close>

lemma js_trim_Nil: "js_trim [] = []"
  by (simp add: js_trim_def)

lemma post_api_agents_index_range:
  assumes "truthy_text (name req)" and "truthy_text (phone req)"
    and "commissionPercent req = JNum (Fin x)" and "x < 0 \<or> 100 < x"
  shows "post_api_agents_index req now s
           = (Response 400 (Error ''commissionPercent must be 0-100''), s)"
  using assms by (auto simp: post_api_agents_index_def truthy_def falsy_num_def Number_def)

text \<open>
  C8. \<open>POST /api/agents\<close> of part\_003 checks the name and nothing else: with a name that
  is not blank and a number \<open>x\<close> as \<open>commissionPercent\<close>, whatever its value, the request
  is answered 200 and a row with the percent \<open>x\<close> is inserted. (\<open>POST /api/agents\<close> of
  src/index.js answers 400 when the number is below 0 or above 100.)
\<close>
theorem create_agent_has_no_range_check:
  assumes "name req = Text n" and "js_trim n \<noteq> []" and "commissionPercent req = JNum (Fin x)"
  shows "post_api_agents req now s =
           (Response 200 (Ok_id (agents_id_seq s + 1)),
            s\<lparr>agents_id_seq := agents_id_seq s + 1,
              agents := agents s @
                [\<lparr>agents_id = agents_id_seq s + 1, agents_name = js_trim n,
                  agents_phone = text_or_null (phone req),
                  agents_commission_percent = to_decimal x, agents_balance = 0,
                  agents_created_at = now\<rparr>]\<rparr>)"
proof -
  have "n \<noteq> []" using assms(2) js_trim_Nil by auto
  then show ?thesis using assms
    by (simp add: post_api_agents_def insert_agent_def truthy_text_def text_or_null_def
        nullish_def numeric_param_Fin Let_def)
qed

text \<open>
  A run of the theorem: the body \<open>{ name: "B", commissionPercent: 150 }\<close> creates agent 2
  at 150 percent.
\<close>
theorem create_agent_has_no_range_check_witness:
  "name (no_fields\<lparr>name := Text ''B'', commissionPercent := JNum (Fin 150)\<rparr>) = Text ''B''
   \<and> js_trim ''B'' = ''B''
   \<and> post_api_agents (no_fields\<lparr>name := Text ''B'', commissionPercent := JNum (Fin 150)\<rparr>) 9
       (one_agent 10 0)
     = (Response 200 (Ok_id 2),
        (one_agent 10 0)\<lparr>agents := [agent_A 10 0,
            \<lparr>agents_id = 2, agents_name = ''B'', agents_phone = None,
              agents_commission_percent = 150, agents_balance = 0, agents_created_at = 9\<rparr>],
          agents_id_seq := 2\<rparr>)
   \<and> post_api_agents_index (no_fields\<lparr>name := Text ''B'', phone := Text ''1'',
         commissionPercent := JNum (Fin 150)\<rparr>) 9 (one_agent 10 0)
     = (Response 400 (Error ''commissionPercent must be 0-100''), one_agent 10 0)"
proof -
  let ?r = "no_fields\<lparr>name := Text ''B'', commissionPercent := JNum (Fin 150)\<rparr>"
  have h1: "name ?r = Text ''B''" by (simp add: no_fields_def)
  have t: "js_trim ''B'' = ''B''" by (simp add: js_trim_def js_whitespace_def)
  then have h2: "js_trim ''B'' \<noteq> []" by simp
  have h3: "commissionPercent ?r = JNum (Fin 150)" by (simp add: no_fields_def)
  have "post_api_agents ?r 9 (one_agent 10 0)
     = (Response 200 (Ok_id 2),
        (one_agent 10 0)\<lparr>agents := [agent_A 10 0,
            \<lparr>agents_id = 2, agents_name = ''B'', agents_phone = None,
              agents_commission_percent = 150, agents_balance = 0, agents_created_at = 9\<rparr>],
          agents_id_seq := 2\<rparr>)"
    using create_agent_has_no_range_check [OF h1 h2 h3, of 9 "one_agent 10 0"]
    by (simp add: t to_decimal_150 one_agent_def no_fields_def text_or_null_def)
  moreover have "post_api_agents_index (no_fields\<lparr>name := Text ''B'', phone := Text ''1'',
         commissionPercent := JNum (Fin 150)\<rparr>) 9 (one_agent 10 0)
     = (Response 400 (Error ''commissionPercent must be 0-100''), one_agent 10 0)"
    by (rule post_api_agents_index_range [where x = 150])
      (simp_all add: no_fields_def truthy_text_def text_or_null_def)
  ultimately show ?thesis using h1 t by simp
qed


section \<open>Updating an agent\<close>

lemma agents_id_set_profile [simp]: "agents_id (set_profile i n ph c a) = agents_id a"
  by (simp add: set_profile_def)

lemma filter_id_map_set_profile:
  "filter (\<lambda>x. agents_id x = j) (map (set_profile i n ph c) xs)
     = map (set_profile i n ph c) (filter (\<lambda>x. agents_id x = j) xs)"
  by (induction xs) simp_all

lemma put_api_agents_id_outcome:
  assumes "put_api_agents_id req s = (r, s1)"
  shows "(r \<noteq> Response 200 Ok \<and> s1 = s)
       \<or> (\<exists>i n ph c. r = Response 200 Ok
             \<and> int4_param (string_to_number (param_id req)) = Some i \<and> has_agent s i
             \<and> (commissionPercent req \<noteq> JUndefined \<longrightarrow>
                  numeric_param (Number (commissionPercent req)) = Some c)
             \<and> s1 = s\<lparr>agents := map (set_profile i n ph c) (agents s)\<rparr>)"
proof (cases "select_agent (string_to_number (param_id req)) s")
  case None
  then show ?thesis using assms
    by (auto simp: put_api_agents_id_def Let_def server_error_def split: if_splits)
next
  case (Some rows)
  then obtain i where i: "int4_param (string_to_number (param_id req)) = Some i"
    and rows: "rows = filter (\<lambda>x. agents_id x = i) (agents s)"
    by (auto simp: select_agent_def split: option.splits)
  show ?thesis
  proof (cases "rows = []")
    case True
    then show ?thesis using assms Some
      by (auto simp: put_api_agents_id_def Let_def server_error_def split: if_splits)
  next
    case False
    then have h: "has_agent s i" and hd: "agents_id (hd rows) = i"
      using rows hd_in_set [of rows] by (auto simp: has_agent_def filter_empty_conv)
    show ?thesis using assms Some False i h hd
      by (auto simp: put_api_agents_id_def Let_def set_profile_def [abs_def] server_error_def
          split: if_splits option.splits text_field.splits)
  qed
qed


lemma select_agent_after_update:
  "select_agent n (s\<lparr>agents := map (set_profile i nm ph c) (agents s)\<rparr>)
     = map_option (map (set_profile i nm ph c)) (select_agent n s)"
  by (simp add: select_agent_def filter_id_map_set_profile split: option.splits)

lemma report_after_update:
  assumes "get_api_agents_id_report req' s = (Response 200 (Ok_report a st ct pt ss ps), s')"
  shows "get_api_agents_id_report req' (s\<lparr>agents := map (set_profile i nm ph c) (agents s)\<rparr>)
       = (Response 200 (Ok_report (set_profile i nm ph c a) st ct pt ss ps),
          s\<lparr>agents := map (set_profile i nm ph c) (agents s)\<rparr>)"
proof -
  let ?n = "string_to_number (param_id req')"
  let ?s1 = "s\<lparr>agents := map (set_profile i nm ph c) (agents s)\<rparr>"
  have fin: "isFinite ?n"
  proof (rule ccontr)
    assume "\<not> isFinite ?n"
    then have "get_api_agents_id_report req' s = (Response 400 (Error ''invalid agent id''), s)"
      by (simp add: get_api_agents_id_report_def)
    with assms show False by simp
  qed
  obtain rows where rows: "select_agent ?n s = Some rows"
  proof (cases "select_agent ?n s")
    case None
    then have "get_api_agents_id_report req' s = (server_error, s)"
      using fin by (simp add: get_api_agents_id_report_def)
    with assms show ?thesis by (simp add: server_error_def)
  next
    case (Some rows)
    then show ?thesis using that by blast
  qed
  have ne: "rows \<noteq> []"
  proof
    assume "rows = []"
    then have "get_api_agents_id_report req' s = (Response 404 (Error ''agent not found''), s)"
      using fin rows by (simp add: get_api_agents_id_report_def)
    with assms show False by simp
  qed
  have rows1: "select_agent ?n ?s1 = Some (map (set_profile i nm ph c) rows)"
    by (simp add: select_agent_after_update rows)
  have hd1: "hd (map (set_profile i nm ph c) rows) = set_profile i nm ph c (hd rows)"
    using ne by (simp add: hd_map)
  from report_outcome [OF assms] have o: "st = sale_price_sum s (agents_id a)"
    "ct = commission_sum s (agents_id a)" "pt = payout_sum s (agents_id a)"
    "ss = map (\<lambda>r. (r, customer_name_of s (sales_customer_id r)))
                (take 200 (order_desc sales_created_at
                   (filter (\<lambda>r. sales_agent_id r = agents_id a) (sales s))))"
    "ps = take 200 (order_desc payouts_created_at
                   (filter (\<lambda>r. payouts_agent_id r = agents_id a) (payouts s)))"
    by simp_all
  have a: "a = hd rows"
    using assms fin rows ne by (simp add: get_api_agents_id_report_def Let_def)
  have names: "customer_name_of ?s1 = customer_name_of s"
    by (rule ext) (simp add: customer_name_of_def split: option.splits)
  show ?thesis
    using fin rows1 ne hd1
    by (simp add: get_api_agents_id_report_def Let_def o a sale_price_sum_def
        commission_sum_def payout_sum_def names)
qed

lemma agent_by_id_after_update:
  assumes "has_agent s i"
  shows "agent_by_id (s\<lparr>agents := map (set_profile i nm ph c) (agents s)\<rparr>) i
       = (agent_by_id s i)\<lparr>agents_name := nm, agents_phone := ph,
            agents_commission_percent := c\<rparr>"
proof -
  have ne: "filter (\<lambda>x. agents_id x = i) (agents s) \<noteq> []"
    using assms by (auto simp: has_agent_def filter_empty_conv)
  then have "agents_id (hd (filter (\<lambda>x. agents_id x = i) (agents s))) = i"
    using hd_in_set [OF ne] by simp
  then show ?thesis
    using ne by (simp add: agent_by_id_def filter_id_map_set_profile hd_map set_profile_def)
qed

lemma post_api_sales_index_outcome:
  assumes "post_api_sales_index req now s = (Response 200 (Ok_sale k pct amt), s2)"
  shows "\<exists>a c m row. int4_param (Number (agentId req)) = Some a \<and> has_agent s a
          \<and> pct = fl (agents_commission_percent (agent_by_id s a))
          \<and> amt = js_div100 (js_mul (Number (salePrice req)) pct)
          \<and> numeric_param pct = Some c \<and> numeric_param amt = Some m
          \<and> sales_commission_percent row = c \<and> sales_commission_amount row = m
          \<and> sales_agent_id row = a
          \<and> sales s2 = sales s @ [row]"
proof -
  let ?aId = "Number (agentId req)"
  obtain rows where rows: "select_agent ?aId s = Some rows" "rows \<noteq> []"
    using assms
    by (auto simp: post_api_sales_index_def Let_def server_error_def
        split: if_splits option.splits)
  then obtain a where a: "int4_param ?aId = Some a"
    and r: "rows = filter (\<lambda>x. agents_id x = a) (agents s)"
    by (auto simp: select_agent_def split: option.splits)
  have h: "has_agent s a" using rows r by (auto simp: has_agent_def filter_empty_conv)
  have hd_rows: "hd rows = agent_by_id s a" by (simp add: r agent_by_id_def)
  let ?pct = "fl (agents_commission_percent (agent_by_id s a))"
  let ?amt = "js_div100 (js_mul (Number (salePrice req)) ?pct)"
  obtain s1 ins where ins: "insert_sale ?aId (Some (Number (customerId req)))
      (Number (salePrice req)) ?pct ?amt None now s = (s1, ins)"
    by (cases "insert_sale ?aId (Some (Number (customerId req)))
      (Number (salePrice req)) ?pct ?amt None now s") auto
  have res: "(case ins of None \<Rightarrow> (server_error, s1)
              | Some i \<Rightarrow> (Response 200 (Ok_sale i ?pct ?amt), s1))
             = (Response 200 (Ok_sale k pct amt), s2)"
    using assms rows hd_rows ins
    by (auto simp: post_api_sales_index_def Let_def split: if_splits)
  then obtain i where i: "ins = Some i" "pct = ?pct" "amt = ?amt" "s2 = s1"
    by (cases ins) (auto simp: server_error_def)
  from insert_sale_done [OF ins [unfolded i(1)]]
  show ?thesis using a h i by auto
qed

lemma post_api_sales_ok_outcome:
  assumes "post_api_sales req now s = (Response 200 (Ok_sale k pct amt), s2)"
  shows "\<exists>a c m row. int4_param (Number (agentId req)) = Some a \<and> has_agent s a
          \<and> pct = fl (agents_commission_percent (agent_by_id s a))
          \<and> numeric_param pct = Some c \<and> numeric_param amt = Some m
          \<and> sales_commission_percent row = c \<and> sales_commission_amount row = m
          \<and> sales_agent_id row = a
          \<and> sales s2 = sales s @ [row]"
proof -
  let ?aId = "Number (agentId req)"
  obtain cId price where
    t: "sale_transaction ?aId cId price (text_or_null (body_note req)) now s
         = (Response 200 (Ok_sale k pct amt), s2)"
    using assms by (auto simp: post_api_sales_def Let_def split: if_splits)
  from sale_transaction_outcome [OF t] obtain a p c m cust row where
    o: "int4_param ?aId = Some a" "has_agent s a"
      "numeric_param (or_zero (fl (agents_commission_percent (agent_by_id s a)))) = Some c"
      "numeric_param (js_div100 (js_mul price
          (or_zero (fl (agents_commission_percent (agent_by_id s a)))))) = Some m"
      "row = \<lparr>sales_id = sales_id_seq s + 1, sales_agent_id = a, sales_customer_id = cust,
              sales_sale_price = p, sales_commission_percent = c,
              sales_commission_amount = m, sales_note = text_or_null (body_note req),
              sales_created_at = now\<rparr>"
      "Response 200 (Ok_sale k pct amt) = Response 200 (Ok_sale (sales_id_seq s + 1)
           (or_zero (fl (agents_commission_percent (agent_by_id s a))))
           (js_div100 (js_mul price
             (or_zero (fl (agents_commission_percent (agent_by_id s a)))))))"
      "s2 = add_balance m a (s\<lparr>sales_id_seq := sales_id_seq s + 1, sales := sales s @ [row]\<rparr>)"
    by (auto simp: server_error_def)
  have "pct = fl (agents_commission_percent (agent_by_id s a))"
    using o(6) by (simp add: or_zero_fl)
  moreover have "numeric_param pct = Some c" "numeric_param amt = Some m"
    using o(3,4,6) by simp_all
  moreover have "sales s2 = sales s @ [row]" by (simp add: o(7) add_balance_def)
  moreover have "sales_commission_percent row = c" "sales_commission_amount row = m"
    "sales_agent_id row = a" by (simp_all add: o(5))
  ultimately show ?thesis using o(1,2) by blast
qed

text \<open>
  C5. \<open>PUT /api/agents/:id\<close> of src/index.js leaves the sale rows as they are, whatever
  its answer. The report of part\_003 lists stored sale rows and the sum of their stored
  commission amounts, and after the update it lists the same rows and the same sums as
  before. After an update that sets the percent of agent \<open>i\<close> to \<open>c\<close>, a sale of that agent
  (in src/index.js and in part\_003) is answered with the percent \<open>fl c\<close> and appends one row
  that holds it, after the rows that were there.
\<close>
theorem commission_snapshot:
  "sales (snd (put_api_agents_id req s)) = sales s
   \<and> (get_api_agents_id_report req' s = (Response 200 (Ok_report a st ct pt ss ps), s') \<longrightarrow>
        set (map fst ss) \<subseteq> set (sales s)
        \<and> ct = sum_list (map sales_commission_amount
                  (filter (\<lambda>r. sales_agent_id r = agents_id a) (sales s)))
        \<and> (\<exists>a'. get_api_agents_id_report req' (snd (put_api_agents_id req s))
              = (Response 200 (Ok_report a' st ct pt ss ps), snd (put_api_agents_id req s))))
   \<and> (put_api_agents_id req s = (Response 200 Ok, s1)
        \<and> commissionPercent req \<noteq> JUndefined
        \<and> numeric_param (Number (commissionPercent req)) = Some c
        \<and> int4_param (string_to_number (param_id req)) = Some i \<longrightarrow>
        (int4_param (Number (agentId req2)) = Some i
         \<and> post_api_sales_index req2 now s1 = (Response 200 (Ok_sale k pct amt), s2) \<longrightarrow>
           pct = fl c
           \<and> (\<exists>row. sales s2 = sales s @ [row]
                 \<and> numeric_param pct = Some (sales_commission_percent row)
                 \<and> numeric_param amt = Some (sales_commission_amount row)))
        \<and> (int4_param (Number (agentId req3)) = Some i
           \<and> post_api_sales req3 now' s1 = (Response 200 (Ok_sale k' pct' amt'), s3) \<longrightarrow>
           pct' = fl c
           \<and> (\<exists>row. sales s3 = sales s @ [row]
                 \<and> numeric_param pct' = Some (sales_commission_percent row)
                 \<and> numeric_param amt' = Some (sales_commission_amount row))))"
proof -
  obtain r0 s0 where put: "put_api_agents_id req s = (r0, s0)"
    by (cases "put_api_agents_id req s") auto
  from put_api_agents_id_outcome [OF put]
  have frame: "sales s0 = sales s" by auto
  have report: "get_api_agents_id_report req' s
        = (Response 200 (Ok_report a st ct pt ss ps), s') \<longrightarrow>
        set (map fst ss) \<subseteq> set (sales s)
        \<and> ct = sum_list (map sales_commission_amount
                  (filter (\<lambda>r. sales_agent_id r = agents_id a) (sales s)))
        \<and> (\<exists>a'. get_api_agents_id_report req' s0
              = (Response 200 (Ok_report a' st ct pt ss ps), s0))"
  proof
    assume rep: "get_api_agents_id_report req' s = (Response 200 (Ok_report a st ct pt ss ps), s')"
    from report_outcome [OF rep] have o:
      "ct = commission_sum s (agents_id a)"
      "ss = map (\<lambda>r. (r, customer_name_of s (sales_customer_id r)))
                (take 200 (order_desc sales_created_at
                   (filter (\<lambda>r. sales_agent_id r = agents_id a) (sales s))))"
      "s' = s"
      by simp_all
    have "set (map fst ss) \<subseteq> set (sales s)"
    proof -
      have "map fst ss = take 200 (order_desc sales_created_at
                   (filter (\<lambda>r. sales_agent_id r = agents_id a) (sales s)))"
        by (simp add: o(2) comp_def)
      then have "set (map fst ss) \<subseteq> set (order_desc sales_created_at
                   (filter (\<lambda>r. sales_agent_id r = agents_id a) (sales s)))"
        using set_take_subset by metis
      then show ?thesis by (auto simp: order_desc_def)
    qed
    moreover have "ct = sum_list (map sales_commission_amount
                  (filter (\<lambda>r. sales_agent_id r = agents_id a) (sales s)))"
      by (simp add: o(1) commission_sum_def)
    moreover have "\<exists>a'. get_api_agents_id_report req' s0
              = (Response 200 (Ok_report a' st ct pt ss ps), s0)"
      using put_api_agents_id_outcome [OF put] rep report_after_update [OF rep] o(3)
      by auto
    ultimately show "set (map fst ss) \<subseteq> set (sales s)
        \<and> ct = sum_list (map sales_commission_amount
                  (filter (\<lambda>r. sales_agent_id r = agents_id a) (sales s)))
        \<and> (\<exists>a'. get_api_agents_id_report req' s0
              = (Response 200 (Ok_report a' st ct pt ss ps), s0))"
      by blast
  qed
  have later: "put_api_agents_id req s = (Response 200 Ok, s1)
        \<and> commissionPercent req \<noteq> JUndefined
        \<and> numeric_param (Number (commissionPercent req)) = Some c
        \<and> int4_param (string_to_number (param_id req)) = Some i \<longrightarrow>
        (int4_param (Number (agentId req2)) = Some i
         \<and> post_api_sales_index req2 now s1 = (Response 200 (Ok_sale k pct amt), s2) \<longrightarrow>
           pct = fl c
           \<and> (\<exists>row. sales s2 = sales s @ [row]
                 \<and> numeric_param pct = Some (sales_commission_percent row)
                 \<and> numeric_param amt = Some (sales_commission_amount row)))
        \<and> (int4_param (Number (agentId req3)) = Some i
           \<and> post_api_sales req3 now' s1 = (Response 200 (Ok_sale k' pct' amt'), s3) \<longrightarrow>
           pct' = fl c
           \<and> (\<exists>row. sales s3 = sales s @ [row]
                 \<and> numeric_param pct' = Some (sales_commission_percent row)
                 \<and> numeric_param amt' = Some (sales_commission_amount row)))"
  proof (intro impI, elim conjE)
    assume p: "put_api_agents_id req s = (Response 200 Ok, s1)"
      and u: "commissionPercent req \<noteq> JUndefined"
      and c: "numeric_param (Number (commissionPercent req)) = Some c"
      and i: "int4_param (string_to_number (param_id req)) = Some i"
    from put_api_agents_id_outcome [OF p] u c i obtain n ph where
      h: "has_agent s i" and s1: "s1 = s\<lparr>agents := map (set_profile i n ph c) (agents s)\<rparr>"
      by auto
    have pct1: "agents_commission_percent (agent_by_id s1 i) = c"
      by (simp add: s1 agent_by_id_after_update [OF h])
    have sales1: "sales s1 = sales s" by (simp add: s1)
    have idx: "int4_param (Number (agentId req2)) = Some i
         \<and> post_api_sales_index req2 now s1 = (Response 200 (Ok_sale k pct amt), s2) \<longrightarrow>
           pct = fl c
           \<and> (\<exists>row. sales s2 = sales s @ [row]
                 \<and> numeric_param pct = Some (sales_commission_percent row)
                 \<and> numeric_param amt = Some (sales_commission_amount row))"
    proof (intro impI, elim conjE)
      assume i2: "int4_param (Number (agentId req2)) = Some i"
        and "post_api_sales_index req2 now s1 = (Response 200 (Ok_sale k pct amt), s2)"
      from post_api_sales_index_outcome [OF this(2)] i2 pct1 sales1
      show "pct = fl c
           \<and> (\<exists>row. sales s2 = sales s @ [row]
                 \<and> numeric_param pct = Some (sales_commission_percent row)
                 \<and> numeric_param amt = Some (sales_commission_amount row))"
        by auto
    qed
    have p3: "int4_param (Number (agentId req3)) = Some i
           \<and> post_api_sales req3 now' s1 = (Response 200 (Ok_sale k' pct' amt'), s3) \<longrightarrow>
           pct' = fl c
           \<and> (\<exists>row. sales s3 = sales s @ [row]
                 \<and> numeric_param pct' = Some (sales_commission_percent row)
                 \<and> numeric_param amt' = Some (sales_commission_amount row))"
    proof (intro impI, elim conjE)
      assume i3: "int4_param (Number (agentId req3)) = Some i"
        and "post_api_sales req3 now' s1 = (Response 200 (Ok_sale k' pct' amt'), s3)"
      from post_api_sales_ok_outcome [OF this(2)] i3 pct1 sales1
      show "pct' = fl c
           \<and> (\<exists>row. sales s3 = sales s @ [row]
                 \<and> numeric_param pct' = Some (sales_commission_percent row)
                 \<and> numeric_param amt' = Some (sales_commission_amount row))"
        by auto
    qed
    from idx p3
    show "(int4_param (Number (agentId req2)) = Some i
         \<and> post_api_sales_index req2 now s1 = (Response 200 (Ok_sale k pct amt), s2) \<longrightarrow>
           pct = fl c
           \<and> (\<exists>row. sales s2 = sales s @ [row]
                 \<and> numeric_param pct = Some (sales_commission_percent row)
                 \<and> numeric_param amt = Some (sales_commission_amount row)))
        \<and> (int4_param (Number (agentId req3)) = Some i
           \<and> post_api_sales req3 now' s1 = (Response 200 (Ok_sale k' pct' amt'), s3) \<longrightarrow>
           pct' = fl c
           \<and> (\<exists>row. sales s3 = sales s @ [row]
                 \<and> numeric_param pct' = Some (sales_commission_percent row)
                 \<and> numeric_param amt' = Some (sales_commission_amount row)))"
      by blast
  qed
  show ?thesis using frame report later by (simp add: put)
qed

lemma fl_40: "fl 40 = Fin 40" by code_simp
lemma fl_4000: "fl 4000 = Fin 4000" by code_simp
lemma to_decimal_40: "to_decimal 40 = 40" by code_simp

lemma put_percent_20:
  "put_api_agents_id (no_fields\<lparr>param_id := ''1'', commissionPercent := JNum (Fin 20)\<rparr>) ledger_20
     = (Response 200 Ok, ledger_20_at_20)"
  by (simp add: put_api_agents_id_def handler_defs number_facts ledger_20_def
      ledger_20_at_20_def)

lemma report_ledger_20:
  "get_api_agents_id_report (no_fields\<lparr>param_id := ''1''\<rparr>) ledger_20
     = (Response 200 (Ok_report (agent_A 10 20) 200 20 0 [(sale_A 1 None 200 20 2, None)] []),
        ledger_20)"
  by (simp add: handler_defs number_facts ledger_20_def)

lemma report_ledger_20_at_20:
  "get_api_agents_id_report (no_fields\<lparr>param_id := ''1''\<rparr>) ledger_20_at_20
     = (Response 200 (Ok_report (agent_A 20 20) 200 20 0 [(sale_A 1 None 200 20 2, None)] []),
        ledger_20_at_20)"
  by (simp add: handler_defs number_facts ledger_20_def ledger_20_at_20_def)

lemma sale_at_20_index:
  "post_api_sales_index (sale_of (JNum (Fin 1)) (JNum (Fin 1)) (JNum (Fin 200))) 3 ledger_20_at_20
     = (Response 200 (Ok_sale 2 (Fin 20) (Fin 40)),
        ledger_20_at_20\<lparr>sales := [sale_A 1 None 200 20 2, sale_at_20 2 (Some 1) 200 40 3],
          sales_id_seq := 2\<rparr>)"
  by (simp add: handler_defs number_facts fl_40 fl_4000 to_decimal_40 ledger_20_def
      ledger_20_at_20_def sale_at_20_def)

lemma sale_at_20_part003:
  "post_api_sales (sale_of (JNum (Fin 1)) JUndefined (JNum (Fin 200))) 3 ledger_20_at_20
     = (Response 200 (Ok_sale 2 (Fin 20) (Fin 40)),
        ledger_20_at_20\<lparr>agents := [agent_A 20 60],
          sales := [sale_A 1 None 200 20 2, sale_at_20 2 None 200 40 3],
          sales_id_seq := 2\<rparr>)"
  by (simp add: handler_defs number_facts fl_40 fl_4000 to_decimal_40 ledger_20_def
      ledger_20_at_20_def sale_at_20_def)

text \<open>
  A run of the theorem. Agent 1 at 10 percent has a sale of 200 with a commission of 20.
  The update sets the percent to 20. The report lists the sale at 10 percent with its
  commission of 20 before and after the update. A sale of 200 after the update is answered
  with 20 percent and a commission of 40, and its row is appended to the one at 10 percent.
\<close>
theorem commission_snapshot_witness:
  "put_api_agents_id (no_fields\<lparr>param_id := ''1'', commissionPercent := JNum (Fin 20)\<rparr>) ledger_20
     = (Response 200 Ok, ledger_20_at_20)
   \<and> numeric_param (Number (JNum (Fin 20))) = Some 20
   \<and> int4_param (string_to_number ''1'') = Some 1
   \<and> sales ledger_20_at_20 = sales ledger_20
   \<and> sales ledger_20 = [sale_A 1 None 200 20 2]
   \<and> get_api_agents_id_report (no_fields\<lparr>param_id := ''1''\<rparr>) ledger_20
     = (Response 200 (Ok_report (agent_A 10 20) 200 20 0 [(sale_A 1 None 200 20 2, None)] []),
        ledger_20)
   \<and> get_api_agents_id_report (no_fields\<lparr>param_id := ''1''\<rparr>) ledger_20_at_20
     = (Response 200 (Ok_report (agent_A 20 20) 200 20 0 [(sale_A 1 None 200 20 2, None)] []),
        ledger_20_at_20)
   \<and> post_api_sales_index (sale_of (JNum (Fin 1)) (JNum (Fin 1)) (JNum (Fin 200))) 3
        ledger_20_at_20
     = (Response 200 (Ok_sale 2 (Fin 20) (Fin 40)),
        ledger_20_at_20\<lparr>sales := [sale_A 1 None 200 20 2, sale_at_20 2 (Some 1) 200 40 3],
          sales_id_seq := 2\<rparr>)
   \<and> post_api_sales (sale_of (JNum (Fin 1)) JUndefined (JNum (Fin 200))) 3 ledger_20_at_20
     = (Response 200 (Ok_sale 2 (Fin 20) (Fin 40)),
        ledger_20_at_20\<lparr>agents := [agent_A 20 60],
          sales := [sale_A 1 None 200 20 2, sale_at_20 2 None 200 40 3],
          sales_id_seq := 2\<rparr>)
   \<and> Fin 20 = fl 20"
proof -
  let ?put = "no_fields\<lparr>param_id := ''1'', commissionPercent := JNum (Fin 20)\<rparr>"
  let ?rep = "no_fields\<lparr>param_id := ''1''\<rparr>"
  let ?r2 = "sale_of (JNum (Fin 1)) (JNum (Fin 1)) (JNum (Fin 200))"
  let ?r3 = "sale_of (JNum (Fin 1)) JUndefined (JNum (Fin 200))"
  have c: "numeric_param (Number (JNum (Fin 20))) = Some 20"
    by (simp add: Number_def numeric_param_Fin to_decimal_20)
  have i: "int4_param (string_to_number ''1'') = Some 1"
    by (simp add: string_to_number_1 int4_param_1)
  have f: "param_id ?put = ''1''" "commissionPercent ?put = JNum (Fin 20)"
    "Number (agentId ?r2) = Fin 1" "Number (agentId ?r3) = Fin 1"
    by (simp_all add: no_fields_def sale_of_def Number_def)
  note inst = commission_snapshot [of ?put ledger_20 ?rep "agent_A 10 20" 200 20 0
      "[(sale_A 1 None 200 20 2, None)]" "[]" ledger_20 ledger_20_at_20 20 1
      ?r2 3 2 "Fin 20" "Fin 40"
      "ledger_20_at_20\<lparr>sales := [sale_A 1 None 200 20 2, sale_at_20 2 (Some 1) 200 40 3],
          sales_id_seq := 2\<rparr>"
      ?r3 3 2 "Fin 20" "Fin 40"
      "ledger_20_at_20\<lparr>agents := [agent_A 20 60],
          sales := [sale_A 1 None 200 20 2, sale_at_20 2 None 200 40 3],
          sales_id_seq := 2\<rparr>"]
  have "sales ledger_20_at_20 = sales ledger_20 \<and> Fin 20 = fl 20"
    using inst put_percent_20 report_ledger_20 sale_at_20_index sale_at_20_part003 c i f
      int4_param_1
    by simp
  moreover have "sales ledger_20 = [sale_A 1 None 200 20 2]"
    by (simp add: ledger_20_def ledger_def)
  ultimately show ?thesis
    using put_percent_20 report_ledger_20 report_ledger_20_at_20 sale_at_20_index
      sale_at_20_part003 c i
    by simp
qed

section \<open>Two payout requests at once\<close>

lemma post_api_agents_id_payouts_cut:
  "post_api_agents_id_payouts req now s = payout_insertion (payout_approval req s) now s"
  by (simp add: post_api_agents_id_payouts_def payout_approval_def payout_insertion_def Let_def
      split: option.splits)

lemma payout_approval_of_20:
  "payout_approval (payout_at ''1'' (JNum (Fin 20))) index_ledger_20
     = Insert_payout (Fin 1) (Fin 20) []"
  by (simp add: payout_approval_def handler_defs number_facts index_ledger_20_def)

lemma payouts_of_20_in_turn:
  "payouts_in_turn (payout_at ''1'' (JNum (Fin 20))) 3 (payout_at ''1'' (JNum (Fin 20))) 4
       index_ledger_20
     = (Response 200 (Ok_id 1), Response 400 (Error ''amount exceeds balance''),
        ledger 0 [sale_A 1 (Some 1) 200 20 2] [payout_A 1 20 (Some []) 3])"
  by (simp add: payouts_in_turn_def handler_defs number_facts index_ledger_20_def)

lemma payouts_of_20_interleaved:
  "payouts_interleaved (payout_at ''1'' (JNum (Fin 20))) 3 (payout_at ''1'' (JNum (Fin 20))) 4
       index_ledger_20
     = (Response 200 (Ok_id 1), Response 200 (Ok_id 2),
        ledger 0 [sale_A 1 (Some 1) 200 20 2]
          [payout_A 1 20 (Some []) 3, payout_A 2 20 (Some []) 4])"
  by (simp add: payouts_interleaved_def payout_approval_def payout_insertion_def handler_defs
      number_facts index_ledger_20_def)

text \<open>
  C4. In src/index.js the approval of a payout is not made under a lock that also covers
  the debit. Agent 1 has earned 20 and been paid nothing. Two requests
  \<open>POST /api/agents/1/payouts\<close> of 20 each, served one after the other, are answered 200
  and 400 \<open>amount exceeds balance\<close>. When both have read the totals before either inserts,
  each is approved against the balance 20, both are answered 200, two payout rows are
  inserted, and the balance that \<open>agentTotals\<close> reports is -20. (The handlers of part\_003
  read the balance with \<open>SELECT ... FOR UPDATE\<close> inside a transaction; what that lock does
  is PostgreSQL's and is not modelled.)
\<close>
theorem stale_balance_approves_two_payouts:
  "map balance (the (agentTotals None index_ledger_20)) = [20]
   \<and> payout_approval (payout_at ''1'' (JNum (Fin 20))) index_ledger_20
     = Insert_payout (Fin 1) (Fin 20) []
   \<and> payouts_in_turn (payout_at ''1'' (JNum (Fin 20))) 3 (payout_at ''1'' (JNum (Fin 20))) 4
       index_ledger_20
     = (Response 200 (Ok_id 1), Response 400 (Error ''amount exceeds balance''),
        ledger 0 [sale_A 1 (Some 1) 200 20 2] [payout_A 1 20 (Some []) 3])
   \<and> payouts_interleaved (payout_at ''1'' (JNum (Fin 20))) 3 (payout_at ''1'' (JNum (Fin 20))) 4
       index_ledger_20
     = (Response 200 (Ok_id 1), Response 200 (Ok_id 2),
        ledger 0 [sale_A 1 (Some 1) 200 20 2]
          [payout_A 1 20 (Some []) 3, payout_A 2 20 (Some []) 4])
   \<and> map balance (the (agentTotals None
        (ledger 0 [sale_A 1 (Some 1) 200 20 2]
          [payout_A 1 20 (Some []) 3, payout_A 2 20 (Some []) 4]))) = [- 20]"
proof -
  have a: "map balance (the (agentTotals None index_ledger_20)) = [20]"
    by (simp add: handler_defs index_ledger_20_def)
  have b: "map balance (the (agentTotals None
        (ledger 0 [sale_A 1 (Some 1) 200 20 2]
          [payout_A 1 20 (Some []) 3, payout_A 2 20 (Some []) 4]))) = [- 20]"
    by (simp add: handler_defs)
  show ?thesis
    using a b payout_approval_of_20 payouts_of_20_in_turn payouts_of_20_interleaved by simp
qed

text \<open>
  What the run says: the two payouts that were both answered 200 sum to more than the
  agent had, and the balance reported afterwards is negative.
\<close>
theorem stale_balance_approves_two_payouts_witness:
  "map status [fst (payouts_interleaved (payout_at ''1'' (JNum (Fin 20))) 3
        (payout_at ''1'' (JNum (Fin 20))) 4 index_ledger_20),
      fst (snd (payouts_interleaved (payout_at ''1'' (JNum (Fin 20))) 3
        (payout_at ''1'' (JNum (Fin 20))) 4 index_ledger_20))] = [200, 200]
   \<and> map payouts_amount (payouts (snd (snd (payouts_interleaved
        (payout_at ''1'' (JNum (Fin 20))) 3 (payout_at ''1'' (JNum (Fin 20))) 4
        index_ledger_20)))) = [20, 20]
   \<and> list_all (\<lambda>b. b < 0) (map balance (the (agentTotals None (snd (snd (payouts_interleaved
        (payout_at ''1'' (JNum (Fin 20))) 3 (payout_at ''1'' (JNum (Fin 20))) 4
        index_ledger_20))))))"
  using stale_balance_approves_two_payouts by (simp add: ledger_def payout_A_def)

end
